theory Spec2Isabelle
  imports Complex_Main "HOL-Library.Monad_Syntax" "HOL-Library.AList"
begin

section \<open>Numbers, points and SVG matrices\<close>

text \<open>
  The canvas engine of \<^verbatim>\<open>src/graph/workflow.ts\<close> computes with JavaScript numbers.
  They are modelled as real numbers, so rounding is idealised away; a value that
  JavaScript would make infinite (a division by zero) is written \<open>None\<close> where the
  code can produce one.

  An \<^verbatim>\<open>SVGMatrix\<close> is the affine map \<open>(x, y) \<mapsto> (a x + c y + e, b x + d y + f)\<close>.
\<close>

type_synonym point = "real \<times> real"

record SVGMatrix =
  m_a :: real
  m_b :: real
  m_c :: real
  m_d :: real
  m_e :: real
  m_f :: real

definition det :: "SVGMatrix \<Rightarrow> real" where
  "det M = m_a M * m_d M - m_b M * m_c M"

text \<open>\<^verbatim>\<open>M.multiply(N)\<close>: post-multiplication, the map of \<open>N\<close> followed by the map of \<open>M\<close>.\<close>

definition multiply :: "SVGMatrix \<Rightarrow> SVGMatrix \<Rightarrow> SVGMatrix" where
  "multiply M N =
     \<lparr> m_a = m_a M * m_a N + m_c M * m_b N,
       m_b = m_b M * m_a N + m_d M * m_b N,
       m_c = m_a M * m_c N + m_c M * m_d N,
       m_d = m_b M * m_c N + m_d M * m_d N,
       m_e = m_a M * m_e N + m_c M * m_f N + m_e M,
       m_f = m_b M * m_e N + m_d M * m_f N + m_f M \<rparr>"

text \<open>\<^verbatim>\<open>M.inverse()\<close> throws when the matrix is not invertible: that is \<open>None\<close>.\<close>

definition inverse_matrix :: "SVGMatrix \<Rightarrow> SVGMatrix option" where
  "inverse_matrix M =
     (if det M = 0 then None
      else Some \<lparr> m_a = m_d M / det M,
                  m_b = - m_b M / det M,
                  m_c = - m_c M / det M,
                  m_d = m_a M / det M,
                  m_e = (m_c M * m_f M - m_d M * m_e M) / det M,
                  m_f = (m_b M * m_e M - m_a M * m_f M) / det M \<rparr>)"

text \<open>\<^verbatim>\<open>point.matrixTransform(M)\<close>.\<close>

definition matrixTransform :: "point \<Rightarrow> SVGMatrix \<Rightarrow> point" where
  "matrixTransform p M =
     (m_a M * fst p + m_c M * snd p + m_e M, m_b M * fst p + m_d M * snd p + m_f M)"

text \<open>
  Modelled from the spec: \<^verbatim>\<open>Geometry.distance\<close> (\<^verbatim>\<open>utils/geometry\<close>, not among the
  sources), the straight-line distance between two points.
\<close>

definition distance :: "real \<Rightarrow> real \<Rightarrow> real \<Rightarrow> real \<Rightarrow> real" where
  "distance x1 y1 x2 y2 = sqrt ((x2 - x1)\<^sup>2 + (y2 - y1)\<^sup>2)"

section \<open>The workflow object\<close>

text \<open>
  The handlers that \<^verbatim>\<open>workflow.ts\<close> subscribes on its event hub. Each constructor
  stands for the closure registered at that place of the source.
\<close>

datatype handler =
    CreateInputHandler
  | CreateOutputHandler
  | CreateStepHandler
  | ConnectionCreateHandler
  | ArrangeHandler
  | FitHandler

text \<open>The client rectangle of the svg root (\<^verbatim>\<open>getBoundingClientRect()\<close>).\<close>

record rect =
  r_left :: real
  r_right :: real
  r_top :: real
  r_bottom :: real

text \<open>
  A port element, as the port drag uses it: its \<^verbatim>\<open>data-connection-id\<close>, whether it
  carries the class \<^verbatim>\<open>input-port\<close> (otherwise \<^verbatim>\<open>output-port\<close>), the id of its parent
  node, the translation \<open>(e, f)\<close> of its \<^verbatim>\<open>wfCTM\<close> (its position on the canvas) and
  the \<^verbatim>\<open>distance\<close> property that \<^verbatim>\<open>getSortedConnectionPorts\<close> writes.
\<close>

record port =
  p_connection_id :: string
  p_input :: bool
  p_node :: string
  p_wfCTM :: point
  p_distance :: real

text \<open>
  The field \<^verbatim>\<open>dragBoundaryInterval\<close>. The timer handle is the number returned by
  \<^verbatim>\<open>setInterval\<close>, a positive integer (\<open>None\<close> is \<^verbatim>\<open>null\<close>); \<open>None\<close> is
  \<^verbatim>\<open>undefined\<close> for the highlighted port.
\<close>

record dragBoundaryInterval =
  dbi_x :: bool
  dbi_y :: bool
  dbi_interval :: "nat option"
  dbi_xOffset :: real
  dbi_yOffset :: real
  dbi_highlightedPort :: "port option"

definition dragBoundaryInterval_default :: dragBoundaryInterval where
  "dragBoundaryInterval_default =
     \<lparr> dbi_x = False, dbi_y = False, dbi_interval = None,
       dbi_xOffset = 0, dbi_yOffset = 0, dbi_highlightedPort = None \<rparr>"

text \<open>
  What the closure of a boundary timer has captured: the handle that \<^verbatim>\<open>setInterval\<close>
  has returned for it, the boundary \<open>(x, y)\<close>, and of the argument \<^verbatim>\<open>ghostIO\<close>
  (absent in a node drag, which passes \<^verbatim>\<open>pathInfo\<close>) the fields the timer reads.
\<close>

record ghostIO =
  gio_nodeToMouseDistance :: real
  gio_allConnectionPorts :: "port list"
  gio_highlightedPort :: "port option"
  gio_origin :: point

record interval =
  iv_handle :: nat
  iv_boundary :: "int \<times> int"
  iv_ghostIO :: "ghostIO option"

text \<open>The calls made on the data model (\<^verbatim>\<open>this.model\<close>), in order.\<close>

datatype model_call =
    Connect string string
  | CreateInputFromPort string
  | CreateOutputFromPort string
  | SetPosition string "real option" "real option"

text \<open>
  The state of a \<^verbatim>\<open>Workflow\<close> instance together with the part of the host it acts on:
  \<^item> \<open>wf_matrix\<close> is \<^verbatim>\<open>this.workflow.transform.baseVal.getItem(0).matrix\<close>;
  \<^item> \<open>root_ctm\<close> is the screen transform of the svg root, so that the
    \<^verbatim>\<open>getScreenCTM()\<close> of the workflow group is \<open>multiply root_ctm wf_matrix\<close>;
  \<^item> \<open>labels\<close> holds the \<open>a\<close> and \<open>d\<close> entries of the matrix of every
    \<^verbatim>\<open>.node .label\<close> element;
  \<^item> \<open>eventHub\<close> gives the handlers subscribed for an event name, in order;
  \<^item> \<open>timers\<close> are the repeating timers alive in the host and \<open>next_timer\<close> is the
    handle the next \<^verbatim>\<open>setInterval\<close> returns;
  \<^item> \<open>edges\<close> are the edge elements of the canvas, each with its
    \<^verbatim>\<open>data-source-connection\<close> and \<^verbatim>\<open>data-destination-connection\<close>, and \<open>nodes\<close>
    the node elements appended by a port drag, with their position;
  \<^item> \<open>beforeChange\<close> lists the change kinds of the \<^verbatim>\<open>beforeChange\<close> notifications
    emitted so far and \<open>model_calls\<close> the calls made on the data model.
\<close>

record workflow =
  scale :: real
  wf_matrix :: SVGMatrix
  root_ctm :: SVGMatrix
  labels :: "(real option \<times> real option) list"
  eventHub :: "string \<Rightarrow> handler list"
  isDragging :: bool
  workflowBoundingClientRect :: rect
  dragBoundary :: real
  dragBoundaryTranslation :: real
  dragBoundaryInterval :: dragBoundaryInterval
  timers :: "interval list"
  next_timer :: nat
  edges :: "(string \<times> string) list"
  nodes :: "(string \<times> real \<times> real) list"
  beforeChange :: "string list"
  model_calls :: "model_call list"

section \<open>Viewport transform controller\<close>

definition getScreenCTM :: "workflow \<Rightarrow> SVGMatrix" where
  "getScreenCTM w = multiply (root_ctm w) (wf_matrix w)"

definition translateMouseCoords :: "workflow \<Rightarrow> real \<Rightarrow> real \<Rightarrow> point option" where
  "translateMouseCoords w x y =
     (case inverse_matrix (getScreenCTM w) of
        None \<Rightarrow> None
      | Some i \<Rightarrow> Some (matrixTransform (x, y) i))"

text \<open>
  Modelled from the spec: the publish/subscribe notification bus
  (\<^verbatim>\<open>utils/event-hub\<close>, not among the sources). \<open>hub_on\<close> subscribes one more handler
  for an event, after those already there; \<open>emit\<close> runs every handler subscribed for
  the event once, in order, \<open>run\<close> giving what a handler does to the state.
\<close>

definition hub_on :: "string \<Rightarrow> handler \<Rightarrow> (string \<Rightarrow> handler list) \<Rightarrow> (string \<Rightarrow> handler list)" where
  "hub_on ev h hub = hub(ev := hub ev @ [h])"

definition emit :: "(handler \<Rightarrow> workflow \<Rightarrow> workflow) \<Rightarrow> string \<Rightarrow> workflow \<Rightarrow> workflow" where
  "emit run ev w = fold run (eventHub w ev) w"

text \<open>
  \<^verbatim>\<open>1 + (1 - this.scale) / (this.scale * 2)\<close>; at scale 0 the quotient is infinite.
\<close>

definition labelScale :: "real \<Rightarrow> real option" where
  "labelScale s = (if s = 0 then None else Some (1 + (1 - s) / (s * 2)))"

text \<open>
  \<^verbatim>\<open>scaleWorkflow(scaleCoefficient, ev?)\<close>. The anchor is the client position of the
  event, or \<open>(0, 0)\<close> without one. The result is \<open>None\<close> when the current transform
  cannot be inverted (the DOM call throws).
\<close>

definition scaleWorkflow :: "workflow \<Rightarrow> real \<Rightarrow> point option \<Rightarrow> workflow option" where
  "scaleWorkflow w scaleCoefficient ev =
     (let w1 = w\<lparr>scale := scaleCoefficient\<rparr>;
          matrix = wf_matrix w1
      in case translateMouseCoords w1 (case ev of Some p \<Rightarrow> fst p | None \<Rightarrow> 0)
                                      (case ev of Some p \<Rightarrow> snd p | None \<Rightarrow> 0) of
           None \<Rightarrow> None
         | Some coords \<Rightarrow>
             (let e1 = m_e matrix + m_a matrix * fst coords;
                  f1 = m_f matrix + m_a matrix * snd coords;
                  matrix' = matrix\<lparr> m_a := scaleCoefficient, m_d := scaleCoefficient,
                                     m_e := e1 - scaleCoefficient * fst coords,
                                     m_f := f1 - scaleCoefficient * snd coords \<rparr>;
                  ls = labelScale (scale w1)
              in Some (w1\<lparr> wf_matrix := matrix',
                           labels := map (\<lambda>m. (ls, ls)) (labels w1),
                           eventHub := hub_on ''workflow.fit'' FitHandler (eventHub w1) \<rparr>)))"

text \<open>
  The \<^verbatim>\<open>mousewheel\<close> listener of the constructor; \<open>deltaY\<close> and the client position
  are those of the wheel event.
\<close>

definition mousewheel :: "workflow \<Rightarrow> real \<Rightarrow> point \<Rightarrow> workflow option" where
  "mousewheel w deltaY ev =
     (if isDragging w then Some w
      else let scale' = scale w + deltaY / 500
           in if scale' \<le> 0.15 \<or> scale' * scale' > 3 then Some w
              else scaleWorkflow w scale' (Some ev))"

text \<open>
  A sequence of calls of \<^verbatim>\<open>scaleWorkflow\<close>, each with its coefficient and its anchor.
\<close>

fun scaleWorkflows :: "workflow \<Rightarrow> (real \<times> point option) list \<Rightarrow> workflow option" where
  "scaleWorkflows w [] = Some w"
| "scaleWorkflows w (c # cs) =
     (case scaleWorkflow w (fst c) (snd c) of None \<Rightarrow> None | Some w1 \<Rightarrow> scaleWorkflows w1 cs)"

text \<open>The zoom band of the wheel listener: \<open>0.15 < s\<close> and \<open>s\<^sup>2 \<le> 3\<close>.\<close>

definition inZoomBand :: "real \<Rightarrow> bool" where
  "inZoomBand s \<longleftrightarrow> \<not> (s \<le> 0.15 \<or> s * s > 3)"

section \<open>Boundary auto-scroll engine\<close>

text \<open>
  \<^verbatim>\<open>clearInterval(handle)\<close> stops the timer with that handle, and does nothing for
  \<^verbatim>\<open>null\<close>; \<^verbatim>\<open>setInterval\<close> starts a timer and returns a fresh handle.
\<close>

definition clearInterval :: "nat option \<Rightarrow> workflow \<Rightarrow> workflow" where
  "clearInterval h w =
     (case h of None \<Rightarrow> w
      | Some n \<Rightarrow> w\<lparr>timers := filter (\<lambda>t. iv_handle t \<noteq> n) (timers w)\<rparr>)"

definition setInterval :: "int \<times> int \<Rightarrow> ghostIO option \<Rightarrow> workflow \<Rightarrow> nat \<times> workflow" where
  "setInterval boundary ghostIO w =
     (next_timer w,
      w\<lparr>timers := timers w @ [\<lparr>iv_handle = next_timer w, iv_boundary = boundary,
                                  iv_ghostIO = ghostIO\<rparr>],
        next_timer := Suc (next_timer w)\<rparr>)"

text \<open>The four tests of \<^verbatim>\<open>getBoundaryZonesXYAxes\<close>.\<close>

definition isLeftBoundary :: "workflow \<Rightarrow> real \<Rightarrow> bool" where
  "isLeftBoundary w x \<longleftrightarrow> x < r_left (workflowBoundingClientRect w) + dragBoundary w"

definition isRightBoundary :: "workflow \<Rightarrow> real \<Rightarrow> bool" where
  "isRightBoundary w x \<longleftrightarrow> x > r_right (workflowBoundingClientRect w) - dragBoundary w"

definition isTopBoundary :: "workflow \<Rightarrow> real \<Rightarrow> bool" where
  "isTopBoundary w y \<longleftrightarrow> y < r_top (workflowBoundingClientRect w) + dragBoundary w"

definition isBottomBoundary :: "workflow \<Rightarrow> real \<Rightarrow> bool" where
  "isBottomBoundary w y \<longleftrightarrow> y > r_bottom (workflowBoundingClientRect w) - dragBoundary w"

text \<open>
  \<^verbatim>\<open>getBoundaryZonesXYAxes(x, y)\<close>: the new state and the pair \<open>(x, y)\<close> of the
  result, each of \<open>-1\<close>, \<open>0\<close>, \<open>1\<close>.
\<close>

definition getBoundaryZonesXYAxes :: "workflow \<Rightarrow> real \<Rightarrow> real \<Rightarrow> workflow \<times> int \<times> int" where
  "getBoundaryZonesXYAxes w x y =
     (let w' =
        (if \<not> isLeftBoundary w x \<and> \<not> isRightBoundary w x \<and>
            \<not> isTopBoundary w y \<and> \<not> isBottomBoundary w y
         then (if dbi_interval (dragBoundaryInterval w) \<noteq> None
               then (clearInterval (dbi_interval (dragBoundaryInterval w)) w)
                      \<lparr>dragBoundaryInterval := (dragBoundaryInterval w)
                         \<lparr>dbi_x := False, dbi_y := False, dbi_interval := None,
                          dbi_highlightedPort := None\<rparr>\<rparr>
               else w)
         else w)
      in (w', (if isLeftBoundary w x then -1 else if isRightBoundary w x then 1 else 0,
               if isTopBoundary w y then -1 else if isBottomBoundary w y then 1 else 0)))"

text \<open>\<^verbatim>\<open>setDragBoundaryIntervalToDefault()\<close>.\<close>

definition setDragBoundaryIntervalToDefault :: "workflow \<Rightarrow> workflow" where
  "setDragBoundaryIntervalToDefault w =
     (let w1 =
        (if dbi_interval (dragBoundaryInterval w) \<noteq> None
         then (clearInterval (dbi_interval (dragBoundaryInterval w)) w)
                \<lparr>dragBoundaryInterval := (dragBoundaryInterval w)
                   \<lparr>dbi_x := False, dbi_y := False, dbi_interval := None,
                    dbi_highlightedPort := None\<rparr>\<rparr>
         else w)
      in w1\<lparr>dragBoundaryInterval := (dragBoundaryInterval w1)\<lparr>dbi_xOffset := 0, dbi_yOffset := 0\<rparr>\<rparr>)"

text \<open>
  The \<^verbatim>\<open>while\<close> loop at the head of \<^verbatim>\<open>setDragBoundaryIntervalIfNecessary\<close>, from the
  rectangle and the current \<^verbatim>\<open>dragBoundary\<close> to the resized one. The result is
  \<open>None\<close> when the loop does not end.
\<close>

partial_function (option) resizeDragBoundary :: "rect \<Rightarrow> real \<Rightarrow> real option" where
  "resizeDragBoundary r b =
     (if r_right r - b \<le> r_left r + b \<or> r_right r \<le> r_left r + (b * 4)
      then resizeDragBoundary r (b / 2)
      else Some b)"

text \<open>
  \<^verbatim>\<open>setDragBoundaryIntervalIfNecessary(el, boundary, pathInfo, ghostIO)\<close>;
  \<open>ghostIO\<close> is \<open>None\<close> when that argument is absent. The element and
  \<^verbatim>\<open>pathInfo\<close> are read by the body of the timer only, which is \<open>tick\<close> below.
  \<open>startInterval\<close> is the body of the innermost \<^verbatim>\<open>if\<close>: it sets the axis flags
  and the highlighted port, clears the old timer and sets the new one.
\<close>

definition startInterval :: "workflow \<Rightarrow> int \<times> int \<Rightarrow> ghostIO option \<Rightarrow> workflow" where
  "startInterval w boundary ghostIO =
     (let d1 = (dragBoundaryInterval w)\<lparr>dbi_x := fst boundary \<noteq> 0, dbi_y := snd boundary \<noteq> 0\<rparr>;
          d2 = (case ghostIO of None \<Rightarrow> d1
                | Some g \<Rightarrow> d1\<lparr>dbi_highlightedPort := gio_highlightedPort g\<rparr>);
          w2 = clearInterval (dbi_interval d2) w;
          (h, w3) = setInterval boundary ghostIO w2
      in w3\<lparr>dragBoundaryInterval := d2\<lparr>dbi_interval := Some h\<rparr>\<rparr>)"

definition setDragBoundaryIntervalIfNecessary ::
    "workflow \<Rightarrow> int \<times> int \<Rightarrow> ghostIO option \<Rightarrow> workflow option" where
  "setDragBoundaryIntervalIfNecessary w boundary ghostIO =
     (case resizeDragBoundary (workflowBoundingClientRect w) (dragBoundary w) of
        None \<Rightarrow> None
      | Some b \<Rightarrow>
          (let w1 = w\<lparr>dragBoundary := b\<rparr>;
               bx = (fst boundary \<noteq> 0);
               by = (snd boundary \<noteq> 0);
               d = dragBoundaryInterval w1
           in if bx \<or> by
              then (if (\<not> dbi_x d \<and> bx) \<or> (\<not> dbi_y d \<and> by) \<or>
                       (dbi_x d \<and> dbi_y d \<and> \<not> (bx \<and> by))
                    then Some (startInterval w1 boundary ghostIO)
                    else Some w1)
              else Some w1))"

text \<open>
  \<^verbatim>\<open>adaptToScale(x)\<close>; \<open>None\<close> stands for the value that is not finite at scale 0.
\<close>

definition adaptToScale :: "workflow \<Rightarrow> real \<Rightarrow> real option" where
  "adaptToScale w x = (if scale w = 0 then None else Some (x * (1 / scale w)))"

text \<open>
  \<^verbatim>\<open>getScaledDeltaXYForDrag(boundary, ev, startX, startY, dx, dy)\<close>; the event is not
  read by the body. The outer test of the source, whether any axis is at a boundary,
  selects between the same two computations per axis as the inner tests, so each axis
  is written with its own test. \<open>None\<close> is a failure of \<^verbatim>\<open>translateMouseCoords\<close> or
  a delta that is not finite.
\<close>

definition getScaledDeltaXYForDrag ::
    "workflow \<Rightarrow> int \<times> int \<Rightarrow> real \<Rightarrow> real \<Rightarrow> real \<Rightarrow> real \<Rightarrow> point option" where
  "getScaledDeltaXYForDrag w boundary startX startY dx dy =
     (let r = workflowBoundingClientRect w; d = dragBoundaryInterval w in
      do {
        sdx \<leftarrow> (if fst boundary \<noteq> 0
                then do {
                  edge \<leftarrow> translateMouseCoords w
                     (if fst boundary = 1 then r_right r - dragBoundary w
                      else r_left r + dragBoundary w) 0;
                  Some (fst edge - startX) }
                else do { a \<leftarrow> adaptToScale w dx; Some (a + dbi_xOffset d) });
        sdy \<leftarrow> (if snd boundary \<noteq> 0
                then do {
                  edge \<leftarrow> translateMouseCoords w 0
                     (if snd boundary = 1 then r_bottom r - dragBoundary w
                      else r_top r + dragBoundary w);
                  Some (snd edge - startY) }
                else do { a \<leftarrow> adaptToScale w dy; Some (a + dbi_yOffset d) });
        Some (sdx, sdy)
      })"

section \<open>Port connection resolver\<close>

datatype direction = Left | Right

text \<open>
  The ghost node of a port drag: whether it carries the class \<^verbatim>\<open>hidden\<close>, and the
  translation of its transform.
\<close>

record ghost =
  g_hidden :: bool
  g_translate :: point

text \<open>
  The variables that the three callbacks of \<^verbatim>\<open>attachPortDragBehavior\<close> share;
  \<open>pd_edge\<close> holds the end points of the path of the dragged edge. The classes that
  only style the candidates (\<^verbatim>\<open>highlighted\<close>, \<^verbatim>\<open>preferred-port\<close>,
  \<^verbatim>\<open>connection-suggestion\<close>, ...) are not part of the model.
\<close>

record portDrag =
  pd_edge :: "point \<times> point"
  pd_allConnectionPorts :: "port list"
  pd_highlightedPort :: "port option"
  pd_edgeDirection :: direction
  pd_ghostIONode :: ghost
  pd_originNodeCoords :: point

text \<open>
  \<^verbatim>\<open>getSortedConnectionPorts(allConnectionPorts, coords)\<close>. The \<^verbatim>\<open>map\<close> writes the
  distance on every port and \<^verbatim>\<open>sort\<close> orders the ports by it, keeping the order of
  ports at the same distance.
\<close>

definition portDistance :: "point \<Rightarrow> port \<Rightarrow> real" where
  "portDistance coords el =
     distance (fst coords) (snd coords) (fst (p_wfCTM el)) (snd (p_wfCTM el))"

definition setDistance :: "point \<Rightarrow> port \<Rightarrow> port" where
  "setDistance coords el = el\<lparr>p_distance := portDistance coords el\<rparr>"

definition getSortedConnectionPorts :: "port list \<Rightarrow> point \<Rightarrow> port list" where
  "getSortedConnectionPorts allConnectionPorts coords =
     sort_key p_distance (map (setDistance coords) allConnectionPorts)"

text \<open>
  \<^verbatim>\<open>highlightPortOrShowGhostNode(ghostIONode, sorted, nodeToMouseDistance, edgeDirection,
  newCoords)\<close>: the returned port and the ghost node after the call; \<open>sortedPorts\<close> is
  the argument \<^verbatim>\<open>sorted\<close>. The direction only names a class.
\<close>

definition highlightPortOrShowGhostNode ::
    "ghost \<Rightarrow> port list \<Rightarrow> real \<Rightarrow> point \<Rightarrow> port option \<times> ghost" where
  "highlightPortOrShowGhostNode ghostIONode sortedPorts nodeToMouseDistance newCoords =
     (let g1 = ghostIONode\<lparr>g_hidden := True\<rparr> in
      case sortedPorts of
        [] \<Rightarrow>
          (None, (if nodeToMouseDistance > 120 then g1\<lparr>g_hidden := False\<rparr> else g1)
                   \<lparr>g_translate := newCoords\<rparr>)
      | s0 # _ \<Rightarrow>
          (if p_distance s0 < 100
           then (Some s0, g1\<lparr>g_translate := newCoords\<rparr>)
           else (None, (if nodeToMouseDistance > 120 then g1\<lparr>g_hidden := False\<rparr> else g1)
                         \<lparr>g_translate := newCoords\<rparr>)))"

text \<open>
  The start callback of the port drag. \<open>rect\<close> is the client rectangle of the svg
  root, \<open>origin\<close> the port the drag starts from, \<open>originNodeCTM\<close> the translation
  of the screen transform of its parent node, \<open>ports\<close> the port elements of the
  canvas and \<open>g\<close> the ghost node that \<^verbatim>\<open>GraphNode.createGhostIO()\<close> returns.
\<close>

definition portDragStart ::
    "workflow \<Rightarrow> rect \<Rightarrow> port \<Rightarrow> point \<Rightarrow> port list \<Rightarrow> ghost \<Rightarrow> (workflow \<times> portDrag) option" where
  "portDragStart w rect origin originNodeCTM ports g =
     (let w1 = w\<lparr>isDragging := True, workflowBoundingClientRect := rect\<rparr> in
      do {
        originNodeCoords \<leftarrow> translateMouseCoords w1 (fst originNodeCTM) (snd originNodeCTM);
        Some (w1,
          \<lparr> pd_edge = ((0, 0), (0, 0)),
            pd_allConnectionPorts =
              filter (\<lambda>el. p_node el \<noteq> p_node origin)
                (filter (\<lambda>el. p_input el = (\<not> p_input origin)) ports),
            pd_highlightedPort = None,
            pd_edgeDirection = (if p_input origin then Left else Right),
            pd_ghostIONode = g,
            pd_originNodeCoords = originNodeCoords \<rparr>)
      })"

text \<open>
  The move callback of the port drag: \<open>dx\<close>, \<open>dy\<close> and the client position
  \<open>ev\<close> come from the pointer, \<open>ctm\<close> is the translation \<open>(e, f)\<close> of the screen
  transform of the origin port.
\<close>

definition portDragMove ::
    "workflow \<Rightarrow> portDrag \<Rightarrow> real \<Rightarrow> real \<Rightarrow> point \<Rightarrow> point \<Rightarrow> (workflow \<times> portDrag) option" where
  "portDragMove w pd dx dy ev ctm =
     do {
       coords \<leftarrow> translateMouseCoords w (fst ev) (snd ev);
       origin \<leftarrow> translateMouseCoords w (fst ctm) (snd ctm);
       let nodeToMouseDistance =
             distance (fst (pd_originNodeCoords pd)) (snd (pd_originNodeCoords pd))
                      (fst coords) (snd coords);
       let (w1, boundary) = getBoundaryZonesXYAxes w (fst ev) (snd ev);
       w2 \<leftarrow> (if fst boundary \<noteq> 0 \<or> snd boundary \<noteq> 0
              then setDragBoundaryIntervalIfNecessary w1 boundary
                     (Some \<lparr> gio_nodeToMouseDistance = nodeToMouseDistance,
                             gio_allConnectionPorts = pd_allConnectionPorts pd,
                             gio_highlightedPort = pd_highlightedPort pd,
                             gio_origin = origin \<rparr>)
              else Some w1);
       scaledDeltas \<leftarrow> getScaledDeltaXYForDrag w2 boundary (fst origin) (snd origin) dx dy;
       let newCoords = (fst origin + fst scaledDeltas, snd origin + snd scaledDeltas);
       let ports = map (setDistance coords) (pd_allConnectionPorts pd);
       let sortedPorts = getSortedConnectionPorts (pd_allConnectionPorts pd) coords;
       let (highlightedPort, g) =
             highlightPortOrShowGhostNode (pd_ghostIONode pd) sortedPorts nodeToMouseDistance newCoords;
       Some (w2, pd\<lparr> pd_edge := (origin, newCoords),
                      pd_allConnectionPorts := ports,
                      pd_highlightedPort := highlightedPort,
                      pd_ghostIONode := g \<rparr>)
     }"

text \<open>\<^verbatim>\<open>sourceID.startsWith("in")\<close>.\<close>

definition startsWith :: "string \<Rightarrow> string \<Rightarrow> bool" where
  "startsWith s pre \<longleftrightarrow> take (length pre) s = pre"

text \<open>
  Modelled from the spec: \<^verbatim>\<open>GraphEdge.findEdge\<close> and
  \<^verbatim>\<open>GraphEdge.spawnBetweenConnectionIDs\<close> (\<^verbatim>\<open>graph/edge\<close>, not among the sources):
  whether an existing edge joins the two connection ids, and the instantiation of the
  edge between them.
\<close>

definition findEdge :: "workflow \<Rightarrow> string \<Rightarrow> string \<Rightarrow> bool" where
  "findEdge w sourceID destinationID \<longleftrightarrow> (sourceID, destinationID) \<in> set (edges w)"

definition spawnBetweenConnectionIDs :: "workflow \<Rightarrow> string \<Rightarrow> string \<Rightarrow> workflow" where
  "spawnBetweenConnectionIDs w sourceID destinationID =
     w\<lparr>edges := edges w @ [(sourceID, destinationID)]\<rparr>"

definition emitBeforeChange :: "string \<Rightarrow> workflow \<Rightarrow> workflow" where
  "emitBeforeChange kind w = w\<lparr>beforeChange := beforeChange w @ [kind]\<rparr>"

definition modelCall :: "model_call \<Rightarrow> workflow \<Rightarrow> workflow" where
  "modelCall c w = w\<lparr>model_calls := model_calls w @ [c]\<rparr>"

text \<open>
  \<^verbatim>\<open>setModelPosition(obj, x, y)\<close>, the object named by its connection id; a
  coordinate is \<open>None\<close> when the argument is \<^verbatim>\<open>undefined\<close>.
\<close>

definition setModelPosition :: "workflow \<Rightarrow> string \<Rightarrow> real option \<Rightarrow> real option \<Rightarrow> workflow" where
  "setModelPosition w obj x y = modelCall (SetPosition obj x y) (emitBeforeChange ''move'' w)"

text \<open>
  The end callback of the port drag. \<open>origin\<close> is the port the drag started from,
  \<open>ev\<close> the client position of the release and \<open>newIO\<close> the connection id of the
  input or output that the data model creates when it is asked to. The variables of
  the drag end with the callback, so only the workflow is returned. The callback is
  given in five parts:
  \<^item> \<open>releaseTarget\<close> is the port that
    \<^verbatim>\<open>this.dragBoundaryInterval.highlightedPort || highlightedPort\<close> yields;
  \<^item> \<open>orderIDs\<close> swaps the two connection ids when the first starts with \<^verbatim>\<open>in\<close>;
  \<^item> \<open>snapConnection\<close> is the branch taken when that port is set;
  \<^item> \<open>createIO\<close> is the branch taken when it is not set and the ghost node is not
    hidden;
  \<^item> \<open>portDragEnd\<close> is the callback.
\<close>

definition releaseTarget :: "workflow \<Rightarrow> portDrag \<Rightarrow> port option" where
  "releaseTarget w pd =
     (case dbi_highlightedPort (dragBoundaryInterval w) of
        Some p \<Rightarrow> Some p | None \<Rightarrow> pd_highlightedPort pd)"

definition orderIDs :: "string \<Rightarrow> string \<Rightarrow> string \<times> string" where
  "orderIDs sourceID destinationID =
     (if startsWith sourceID ''in'' then (destinationID, sourceID)
      else (sourceID, destinationID))"

definition snapConnection :: "workflow \<Rightarrow> port \<Rightarrow> port \<Rightarrow> workflow" where
  "snapConnection w origin highlightedPort =
     (let (sourceID, destinationID) =
            orderIDs (p_connection_id origin) (p_connection_id highlightedPort)
      in if \<not> findEdge w sourceID destinationID
         then modelCall (Connect sourceID destinationID)
                (spawnBetweenConnectionIDs (emitBeforeChange ''connect'' w) sourceID destinationID)
         else w)"

definition createIO :: "workflow \<Rightarrow> port \<Rightarrow> point \<Rightarrow> string \<Rightarrow> workflow option" where
  "createIO w origin ev newIO =
     (let portID = p_connection_id origin;
          ioIsInput = startsWith portID ''in'';
          w2 = emitBeforeChange (if ioIsInput then ''input.create'' else ''output.create'') w;
          w3 = modelCall (if ioIsInput then CreateInputFromPort portID
                          else CreateOutputFromPort portID) w2;
          (w4, boundary) = getBoundaryZonesXYAxes w3 (fst ev) (snd ev);
          r = workflowBoundingClientRect w4
      in do {
        mouseCoords \<leftarrow> translateMouseCoords w4 (fst ev) (snd ev);
        newX \<leftarrow> (if fst boundary \<noteq> 0
                 then map_option fst (translateMouseCoords w4
                        (if fst boundary = -1 then r_left r + dragBoundary w4
                         else r_right r - dragBoundary w4) 0)
                 else Some (fst mouseCoords));
        newY \<leftarrow> (if snd boundary \<noteq> 0
                 then map_option snd (translateMouseCoords w4 0
                        (if snd boundary = -1 then r_top r + dragBoundary w4
                         else r_bottom r - dragBoundary w4))
                 else Some (snd mouseCoords));
        let w5 = w4\<lparr>nodes := nodes w4 @ [(newIO, newX, newY)]\<rparr>;
        let w6 = setModelPosition w5 newIO (Some (fst mouseCoords)) (Some (snd mouseCoords));
        let w7 = spawnBetweenConnectionIDs w6 portID newIO;
        scaleWorkflow w7 (scale w7) None
      })"

definition portDragEnd ::
    "workflow \<Rightarrow> portDrag \<Rightarrow> port \<Rightarrow> point \<Rightarrow> string \<Rightarrow> workflow option" where
  "portDragEnd w pd origin ev newIO =
     (let highlightedPort = releaseTarget w pd;
          w1 = setDragBoundaryIntervalToDefault (w\<lparr>isDragging := False\<rparr>)
      in case highlightedPort of
           Some hp \<Rightarrow> Some (snapConnection w1 origin hp)
         | None \<Rightarrow>
             (if \<not> g_hidden (pd_ghostIONode pd)
              then createIO w1 origin ev newIO
              else Some w1))"

section \<open>Auto-arrange layout\<close>



text \<open>The property key that a value names: \<^verbatim>\<open>undefined\<close> names \<^verbatim>\<open>"undefined"\<close>.\<close>

definition toKey :: "string option \<Rightarrow> string" where
  "toKey v = (case v of None \<Rightarrow> ''undefined'' | Some s \<Rightarrow> s)"

text \<open>
  A connection is the pair of \<^verbatim>\<open>c.source.id\<close> and \<^verbatim>\<open>c.destination.id\<close>.

  The object \<^verbatim>\<open>tracker\<close> maps a node name to an array, and the arrays hold references
  to other arrays of \<^verbatim>\<open>tracker\<close>. Every array is created for one key and stays the
  value of that key, so an array is named here by its key: \<open>tracker\<close> is the list of
  the keys in the order of their creation, each with the keys of the arrays that its
  array holds. The map \<^verbatim>\<open>workflowIns\<close>, from arrays to names, is likewise a list of
  pairs keyed by the key of the array. Node names that are properties of
  \<^verbatim>\<open>Object.prototype\<close> are outside the model.
\<close>

type_synonym tracker = "(string \<times> string list) list"

definition array :: "tracker \<Rightarrow> string \<Rightarrow> string list" where
  "array t k = (case map_of t k of None \<Rightarrow> [] | Some deps \<Rightarrow> deps)"





text \<open>
  The depths are JavaScript numbers: \<^verbatim>\<open>Math.max()\<close> of no argument is
  \<^verbatim>\<open>-Infinity\<close>, and stays so under addition.
\<close>

datatype jsnum = NegInfinity | Num int

fun js_add :: "jsnum \<Rightarrow> int \<Rightarrow> jsnum" where
  "js_add NegInfinity i = NegInfinity"
| "js_add (Num n) i = Num (n + i)"

fun js_max :: "jsnum \<Rightarrow> jsnum \<Rightarrow> jsnum" where
  "js_max NegInfinity y = y"
| "js_max x NegInfinity = x"
| "js_max (Num a) (Num b) = Num (max a b)"

definition Math_max :: "jsnum list \<Rightarrow> jsnum" where
  "Math_max ds = fold (\<lambda>d m. js_max m d) ds NegInfinity"


text \<open>
  \<^verbatim>\<open>trace(arr, visited)\<close>, with the set \<open>visited\<close> passed along and returned.
  The first argument bounds the depth of the recursion, and \<open>None\<close> says that the bound
  is reached; \<open>traceAll\<close> is the \<^verbatim>\<open>map\<close> over the dependencies that \<^verbatim>\<open>filter\<close> has
  kept, which calls \<^verbatim>\<open>trace\<close> on each in turn.
\<close>

fun trace :: "nat \<Rightarrow> tracker \<Rightarrow> string \<Rightarrow> string set \<Rightarrow> (jsnum \<times> string set) option"
  and traceAll :: "nat \<Rightarrow> tracker \<Rightarrow> string list \<Rightarrow> string set \<Rightarrow> (jsnum list \<times> string set) option"
where
  "trace 0 t arr visited = None"
| "trace (Suc n) t arr visited =
     (let visited1 = insert arr visited in
      if array t arr \<noteq> []
      then (case traceAll n t (filter (\<lambda>e. e \<notin> visited1) (array t arr)) visited1 of
              None \<Rightarrow> None
            | Some (ds, visited2) \<Rightarrow> Some (js_add (Math_max ds) 1, visited2))
      else Some (Num 1, visited1))"
| "traceAll n t [] visited = Some ([], visited)"
| "traceAll n t (e # es) visited =
     (case trace n t e visited of
        None \<Rightarrow> None
      | Some (d, visited1) \<Rightarrow>
          (case traceAll n t es visited1 of
             None \<Rightarrow> None
           | Some (ds, visited2) \<Rightarrow> Some (d # ds, visited2)))"

text \<open>
  The calls of \<^verbatim>\<open>trace\<close> that one call makes, itself included, in the order in which
  they are made, each with its array and the set \<open>visited\<close> as it is when the call is
  made.
\<close>

fun traceCalls :: "nat \<Rightarrow> tracker \<Rightarrow> string \<Rightarrow> string set \<Rightarrow> (string \<times> string set) list"
  and traceAllCalls :: "nat \<Rightarrow> tracker \<Rightarrow> string list \<Rightarrow> string set \<Rightarrow> (string \<times> string set) list"
where
  "traceCalls 0 t arr visited = [(arr, visited)]"
| "traceCalls (Suc n) t arr visited =
     (arr, visited) #
     (if array t arr \<noteq> []
      then traceAllCalls n t (filter (\<lambda>e. e \<notin> insert arr visited) (array t arr)) (insert arr visited)
      else [])"
| "traceAllCalls n t [] visited = []"
| "traceAllCalls n t (e # es) visited =
     traceCalls n t e visited @
     (case trace n t e visited of None \<Rightarrow> [] | Some (d, visited1) \<Rightarrow> traceAllCalls n t es visited1)"

text \<open>
  The order in which JavaScript enumerates the keys of an object: the keys that are
  array indices (the decimal numeral of an integer below \<open>2\<^sup>3\<^sup>2 - 1\<close>) in ascending
  order, then the other keys in the order of their creation.
\<close>

definition digit :: "char \<Rightarrow> int option" where
  "digit c =
     (let n = (of_char c :: int) in if 48 \<le> n \<and> n \<le> 57 then Some (n - 48) else None)"

fun parse_digits :: "int \<Rightarrow> string \<Rightarrow> int option" where
  "parse_digits acc [] = Some acc"
| "parse_digits acc (c # cs) =
     (case digit c of None \<Rightarrow> None | Some v \<Rightarrow> parse_digits (acc * 10 + v) cs)"

definition arrayIndex :: "string \<Rightarrow> int option" where
  "arrayIndex s =
     (if s = [] \<or> (hd s = CHR ''0'' \<and> length s > 1) then None
      else (case parse_digits 0 s of
              None \<Rightarrow> None
            | Some v \<Rightarrow> if v < 4294967295 then Some v else None))"

definition Object_keys :: "string list \<Rightarrow> string list" where
  "Object_keys ks =
     sort_key (\<lambda>k. the (arrayIndex k)) (filter (\<lambda>k. arrayIndex k \<noteq> None) ks)
     @ filter (\<lambda>k. arrayIndex k = None) ks"

text \<open>
  \<^verbatim>\<open>idToZoneMap\<close>, a map from keys to numbers: first the \<^verbatim>\<open>reduce\<close> that gives
  every key its depth minus one, then the pass that moves the workflow inputs next to
  their dependents. That pass reads the zone of a key of the tracker, which the
  \<^verbatim>\<open>reduce\<close> has set.
\<close>

fun initialZones :: "nat \<Rightarrow> tracker \<Rightarrow> string list \<Rightarrow> (string \<rightharpoonup> jsnum) \<Rightarrow> (string \<rightharpoonup> jsnum) option" where
  "initialZones n t [] acc = Some acc"
| "initialZones n t (k # ks) acc =
     (case trace n t k {} of
        None \<Rightarrow> None
      | Some (d, _) \<Rightarrow> initialZones n t ks (acc(k \<mapsto> js_add d (-1))))"

definition adjustKey ::
    "tracker \<Rightarrow> (string \<times> string option) list \<Rightarrow> string \<Rightarrow> (string \<rightharpoonup> jsnum) \<Rightarrow> (string \<rightharpoonup> jsnum)" where
  "adjustKey t workflowIns k idToZoneMap =
     fold (\<lambda>pre m. case map_of workflowIns pre of
                      None \<Rightarrow> m
                    | Some name \<Rightarrow> (case m k of None \<Rightarrow> m
                                     | Some z \<Rightarrow> m(toKey name \<mapsto> js_add z (-1))))
          (filter (\<lambda>p. map_of workflowIns p \<noteq> None) (array t k)) idToZoneMap"

definition idToZoneMap ::
    "tracker \<Rightarrow> (string \<times> string option) list \<Rightarrow> (string \<rightharpoonup> jsnum) option" where
  "idToZoneMap t workflowIns =
     (let trackerKeys = Object_keys (map fst t) in
      case initialZones (length t) t trackerKeys Map.empty of
        None \<Rightarrow> None
      | Some m \<Rightarrow> Some (fold (adjustKey t workflowIns) trackerKeys m))"


















section \<open>Drag sessions\<close>

text \<open>
  The variables that the callbacks of the node drag share, and the translation
  \<open>nd_el\<close> of the dragged node; \<^verbatim>\<open>newX\<close> and \<^verbatim>\<open>newY\<close> are \<^verbatim>\<open>undefined\<close> until the
  first move of the first node drag, and the start callback does not write them, so
  they hold there what the drag before has left. The paths of the edges of the node
  are not part of the model.
\<close>

record nodeDrag =
  nd_startX :: real
  nd_startY :: real
  nd_newX :: "real option"
  nd_newY :: "real option"
  nd_el :: point

text \<open>
  The drag in progress: none, a node drag, a pan (with the translation of the canvas
  captured at its start) or a port drag.
\<close>

datatype drag = NoDrag | NodeDrag nodeDrag | PanDrag point | PortDrag portDrag

text \<open>
  The callbacks of the node drag: \<open>el\<close> is the translation of the node at the start,
  \<open>rect\<close> the client rectangle of the svg root, \<open>newX\<close> and \<open>newY\<close> the values of
  these variables at the start, \<open>found\<close> the connection id of the model object of the
  node when \<^verbatim>\<open>findById\<close> finds one.
\<close>

definition nodeDragStart ::
    "workflow \<Rightarrow> rect \<Rightarrow> point \<Rightarrow> real option \<Rightarrow> real option \<Rightarrow> workflow \<times> nodeDrag" where
  "nodeDragStart w rect el newX newY =
     (w\<lparr>isDragging := True, workflowBoundingClientRect := rect\<rparr>,
      \<lparr> nd_startX = fst el, nd_startY = snd el, nd_newX = newX, nd_newY = newY, nd_el = el \<rparr>)"

definition nodeDragMove ::
    "workflow \<Rightarrow> nodeDrag \<Rightarrow> real \<Rightarrow> real \<Rightarrow> point \<Rightarrow> (workflow \<times> nodeDrag) option" where
  "nodeDragMove w nd dx dy ev =
     (let (w1, boundary) = getBoundaryZonesXYAxes w (fst ev) (snd ev) in
      do {
        w2 \<leftarrow> (if fst boundary \<noteq> 0 \<or> snd boundary \<noteq> 0
               then setDragBoundaryIntervalIfNecessary w1 boundary None
               else Some w1);
        scaledDeltas \<leftarrow> getScaledDeltaXYForDrag w2 boundary (nd_startX nd) (nd_startY nd) dx dy;
        let newX = nd_startX nd + fst scaledDeltas;
        let newY = nd_startY nd + snd scaledDeltas;
        Some (w2, nd\<lparr>nd_newX := Some newX, nd_newY := Some newY, nd_el := (newX, newY)\<rparr>)
      })"

definition nodeDragEnd :: "workflow \<Rightarrow> nodeDrag \<Rightarrow> string option \<Rightarrow> workflow" where
  "nodeDragEnd w nd found =
     (let w1 = setDragBoundaryIntervalToDefault (w\<lparr>isDragging := False\<rparr>)
      in case found of None \<Rightarrow> w1
         | Some obj \<Rightarrow> setModelPosition w1 obj (nd_newX nd) (nd_newY nd))"

text \<open>The move callback of the pan, from the translation captured at the start.\<close>

definition panMove :: "workflow \<Rightarrow> point \<Rightarrow> real \<Rightarrow> real \<Rightarrow> workflow" where
  "panMove w xy dx dy =
     w\<lparr>wf_matrix := (wf_matrix w)\<lparr>m_e := fst xy + dx, m_f := snd xy + dy\<rparr>\<rparr>"

text \<open>
  The body of the boundary timer, for the timer \<open>iv\<close>. It moves the canvas, adds to
  the offsets and moves the dragged element (the node, or the ghost node of a port
  drag); with \<^verbatim>\<open>ghostIO\<close> it draws the dragged edge again and decides on the
  highlighted port from the position of the ghost node.
\<close>

definition tick :: "interval \<Rightarrow> workflow \<Rightarrow> drag \<Rightarrow> (workflow \<times> drag) option" where
  "tick iv w d =
     (let t = dragBoundaryTranslation w;
          moveX = (if fst (iv_boundary iv) = 1 then t
                   else if fst (iv_boundary iv) = -1 then - t else 0);
          moveY = (if snd (iv_boundary iv) = 1 then t
                   else if snd (iv_boundary iv) = -1 then - t else 0);
          m = wf_matrix w;
          w1 = w\<lparr>wf_matrix := m\<lparr>m_e := m_e m - moveX, m_f := m_f m - moveY\<rparr>\<rparr>
      in do {
        ax \<leftarrow> adaptToScale w1 moveX;
        ay \<leftarrow> adaptToScale w1 moveY;
        let db = dragBoundaryInterval w1;
        let w2 = w1\<lparr>dragBoundaryInterval :=
                      db\<lparr>dbi_xOffset := dbi_xOffset db + ax, dbi_yOffset := dbi_yOffset db + ay\<rparr>\<rparr>;
        (case d of
           NodeDrag nd \<Rightarrow> Some (w2, NodeDrag (nd\<lparr>nd_el := (fst (nd_el nd) + ax, snd (nd_el nd) + ay)\<rparr>))
         | PortDrag pd \<Rightarrow>
             (let g = pd_ghostIONode pd;
                  mx = (fst (g_translate g) + ax, snd (g_translate g) + ay);
                  g1 = g\<lparr>g_translate := mx\<rparr>
              in case iv_ghostIO iv of
                   None \<Rightarrow> Some (w2, PortDrag (pd\<lparr>pd_ghostIONode := g1\<rparr>))
                 | Some gio \<Rightarrow>
                     (let sortedPorts = getSortedConnectionPorts (gio_allConnectionPorts gio) mx;
                          (hp, g2) = highlightPortOrShowGhostNode g1 sortedPorts
                                       (gio_nodeToMouseDistance gio) mx
                      in Some (w2\<lparr>dragBoundaryInterval :=
                                    (dragBoundaryInterval w2)\<lparr>dbi_highlightedPort := hp\<rparr>\<rparr>,
                               PortDrag (pd\<lparr> pd_edge := (gio_origin gio, mx),
                                             pd_allConnectionPorts :=
                                               map (setDistance mx) (pd_allConnectionPorts pd),
                                             pd_ghostIONode := g2 \<rparr>))))
         | _ \<Rightarrow> Some (w2, d))
      })"

text \<open>
  The workflow after the field initialisers and \<^verbatim>\<open>attachEvents\<close> of the constructor:
  \<open>rootCTM\<close> is the screen transform of the svg root and \<open>es\<close> the edges on the canvas.
  The client rectangle is unset until a drag starts, and every drag that reads it sets
  it at its start.
\<close>

definition identity_matrix :: SVGMatrix where
  "identity_matrix = \<lparr> m_a = 1, m_b = 0, m_c = 0, m_d = 1, m_e = 0, m_f = 0 \<rparr>"

definition new_Workflow :: "SVGMatrix \<Rightarrow> (string \<times> string) list \<Rightarrow> workflow" where
  "new_Workflow rootCTM es =
     \<lparr> scale = 1,
       wf_matrix = identity_matrix,
       root_ctm = rootCTM,
       labels = [],
       eventHub = (\<lambda>ev. [])
          (''app.create.input'' := [CreateInputHandler],
           ''app.create.output'' := [CreateOutputHandler],
           ''app.create.step'' := [CreateStepHandler],
           ''connection.create'' := [ConnectionCreateHandler],
           ''workflow.arrange'' := [ArrangeHandler]),
       isDragging = False,
       workflowBoundingClientRect = \<lparr> r_left = 0, r_right = 0, r_top = 0, r_bottom = 0 \<rparr>,
       dragBoundary = 50,
       dragBoundaryTranslation = 5,
       dragBoundaryInterval = dragBoundaryInterval_default,
       timers = [],
       next_timer = 1,
       edges = es,
       nodes = [],
       beforeChange = [],
       model_calls = [] \<rparr>"

text \<open>
  Modelled from the spec: the order in which the pointer dispatch (\<^verbatim>\<open>utils/dom-events\<close>,
  not among the sources) calls the callbacks of a drag, which is start, then moves,
  then end, one drag at a time. With it, the states that the workflow and its drag can
  reach: from the constructor, by wheel events and calls of \<^verbatim>\<open>scaleWorkflow\<close>, by the
  callbacks of the three drags, and by the runs of the boundary timers that are alive.
  The other methods of the class read and write neither \<^verbatim>\<open>dragBoundaryInterval\<close> nor
  a timer.
\<close>

inductive reachable :: "workflow \<times> drag \<Rightarrow> bool" where
  init: "reachable (new_Workflow rootCTM es, NoDrag)"
| wheel: "reachable (w, d) \<Longrightarrow> mousewheel w deltaY ev = Some w' \<Longrightarrow> reachable (w', d)"
| scaled: "reachable (w, d) \<Longrightarrow> scaleWorkflow w s a = Some w' \<Longrightarrow> reachable (w', d)"
| timer: "reachable (w, d) \<Longrightarrow> iv \<in> set (timers w) \<Longrightarrow> tick iv w d = Some (w', d')
            \<Longrightarrow> reachable (w', d')"
| node_start: "reachable (w, NoDrag) \<Longrightarrow> nodeDragStart w rect el newX newY = (w', nd)
            \<Longrightarrow> reachable (w', NodeDrag nd)"
| node_move: "reachable (w, NodeDrag nd) \<Longrightarrow> nodeDragMove w nd dx dy ev = Some (w', nd')
            \<Longrightarrow> reachable (w', NodeDrag nd')"
| node_end: "reachable (w, NodeDrag nd) \<Longrightarrow> reachable (nodeDragEnd w nd found, NoDrag)"
| pan_start: "reachable (w, NoDrag)
            \<Longrightarrow> reachable (w, PanDrag (m_e (wf_matrix w), m_f (wf_matrix w)))"
| pan_move: "reachable (w, PanDrag xy) \<Longrightarrow> reachable (panMove w xy dx dy, PanDrag xy)"
| pan_end: "reachable (w, PanDrag xy) \<Longrightarrow> reachable (w, NoDrag)"
| port_start: "reachable (w, NoDrag) \<Longrightarrow> portDragStart w rect origin ctm ports g = Some (w', pd)
            \<Longrightarrow> reachable (w', PortDrag pd)"
| port_move: "reachable (w, PortDrag pd) \<Longrightarrow> portDragMove w pd dx dy ev ctm = Some (w', pd')
            \<Longrightarrow> reachable (w', PortDrag pd')"
| port_end: "reachable (w, PortDrag pd) \<Longrightarrow> portDragEnd w pd origin ev newIO = Some w'
            \<Longrightarrow> reachable (w', NoDrag)"

text \<open>A node drag and a port drag are the drags that scroll at the boundary.\<close>

definition scrolling :: "drag \<Rightarrow> bool" where
  "scrolling d = (case d of NodeDrag _ \<Rightarrow> True | PortDrag _ \<Rightarrow> True | _ \<Rightarrow> False)"

text \<open>
  What holds of the auto-scroll state in every reachable state: a timer that is alive
  is the one whose handle \<^verbatim>\<open>dragBoundaryInterval.interval\<close> holds; without a handle
  the axis flags and the highlighted port have their defaults; and outside a node drag
  and a port drag the whole state has its defaults and no timer is alive.
\<close>

definition scroll_inv :: "workflow \<Rightarrow> drag \<Rightarrow> bool" where
  "scroll_inv w d \<longleftrightarrow>
     (\<forall>iv \<in> set (timers w). dbi_interval (dragBoundaryInterval w) = Some (iv_handle iv)) \<and>
     (dbi_interval (dragBoundaryInterval w) = None \<longrightarrow>
        \<not> dbi_x (dragBoundaryInterval w) \<and> \<not> dbi_y (dragBoundaryInterval w) \<and>
        dbi_highlightedPort (dragBoundaryInterval w) = None) \<and>
     (\<not> scrolling d \<longrightarrow>
        dragBoundaryInterval w = dragBoundaryInterval_default \<and> timers w = [])"

section \<open>Example states\<close>

text \<open>
  The workflow after the constructor, which ends with \<^verbatim>\<open>renderModel\<close> and so with the
  first call \<^verbatim>\<open>scaleWorkflow(this.scale)\<close>, for a model without nodes.
\<close>

definition example_rendered :: workflow where
  "example_rendered =
     (new_Workflow identity_matrix [])
       \<lparr>eventHub := hub_on ''workflow.fit'' FitHandler (eventHub (new_Workflow identity_matrix []))\<rparr>"

text \<open>
  A canvas of 1000 by 800 pixels at the origin of the screen, and a canvas of the same
  width that is 60 pixels high.
\<close>

definition example_rect :: rect where
  "example_rect = \<lparr> r_left = 0, r_right = 1000, r_top = 0, r_bottom = 800 \<rparr>"

definition short_rect :: rect where
  "short_rect = \<lparr> r_left = 0, r_right = 1000, r_top = 0, r_bottom = 60 \<rparr>"

text \<open>
  A node drag on the new workflow: the state after its start, with the node at
  \<open>(100, 100)\<close>; the drag once the pointer, at \<open>(980, 400)\<close>, has entered the
  right boundary band; the state that it then has, with the boundary timer set; and
  the state after three runs of that timer, when the canvas has moved by 15 pixels and
  the offsets hold the same amount.
\<close>

definition example_started :: workflow where
  "example_started =
     (new_Workflow identity_matrix [])
       \<lparr>isDragging := True, workflowBoundingClientRect := example_rect\<rparr>"

definition example_nodeDrag :: nodeDrag where
  "example_nodeDrag =
     \<lparr> nd_startX = 100, nd_startY = 100, nd_newX = None, nd_newY = None, nd_el = (100, 100) \<rparr>"

definition example_node_drag :: "(workflow \<times> nodeDrag) option" where
  "example_node_drag =
     (let (w, nd) = nodeDragStart (new_Workflow identity_matrix []) example_rect (100, 100) None None
      in nodeDragMove w nd 880 300 (980, 400))"

definition example_interval :: interval where
  "example_interval = \<lparr>iv_handle = 1, iv_boundary = (1, 0), iv_ghostIO = None\<rparr>"

definition example_boundary :: workflow where
  "example_boundary =
     example_started
       \<lparr> dragBoundaryInterval :=
           \<lparr> dbi_x = True, dbi_y = False, dbi_interval = Some 1,
             dbi_xOffset = 0, dbi_yOffset = 0, dbi_highlightedPort = None \<rparr>,
         timers := [example_interval],
         next_timer := 2 \<rparr>"

definition example_scrolled :: workflow where
  "example_scrolled =
     example_boundary
       \<lparr> wf_matrix := identity_matrix\<lparr>m_e := -15\<rparr>,
         dragBoundaryInterval :=
           \<lparr> dbi_x = True, dbi_y = False, dbi_interval = Some 1,
             dbi_xOffset = 15, dbi_yOffset = 0, dbi_highlightedPort = None \<rparr> \<rparr>"

text \<open>A node drag that has started on the canvas that is 60 pixels high.\<close>

definition example_short :: workflow where
  "example_short = fst (nodeDragStart (new_Workflow identity_matrix []) short_rect (100, 20) None None)"

text \<open>
  A port drag from the output port of node \<open>A\<close>, at \<open>(100, 500)\<close> on the canvas. The
  canvas has an input port of node \<open>B\<close> at \<open>(950, 500)\<close>, an input port of \<open>A\<close>
  itself and an output port of node \<open>C\<close>; only the first is a candidate.
  \<open>example_portDrag\<close> is the drag after its start, \<open>example_snapped\<close> the drag after
  the pointer has moved to \<open>(940, 500)\<close>, and \<open>example_joined\<close> the started workflow
  when an edge joins the two ports already.
\<close>

definition example_origin :: port where
  "example_origin =
     \<lparr> p_connection_id = ''out/A/o'', p_input = False, p_node = ''A'',
       p_wfCTM = (100, 500), p_distance = 0 \<rparr>"

definition example_target :: port where
  "example_target =
     \<lparr> p_connection_id = ''in/B/i'', p_input = True, p_node = ''B'',
       p_wfCTM = (950, 500), p_distance = 0 \<rparr>"



definition example_ghost :: ghost where
  "example_ghost = \<lparr> g_hidden = False, g_translate = (0, 0) \<rparr>"

definition example_portDrag :: portDrag where
  "example_portDrag =
     \<lparr> pd_edge = ((0, 0), (0, 0)),
       pd_allConnectionPorts = [example_target],
       pd_highlightedPort = None,
       pd_edgeDirection = Right,
       pd_ghostIONode = example_ghost,
       pd_originNodeCoords = (80, 500) \<rparr>"

definition example_snapped :: portDrag where
  "example_snapped =
     example_portDrag
       \<lparr> pd_edge := ((100, 500), (940, 500)),
         pd_allConnectionPorts := [example_target\<lparr>p_distance := 10\<rparr>],
         pd_highlightedPort := Some (example_target\<lparr>p_distance := 10\<rparr>),
         pd_ghostIONode := \<lparr> g_hidden = True, g_translate = (940, 500) \<rparr> \<rparr>"

definition example_joined :: workflow where
  "example_joined = example_started\<lparr>edges := [(''out/A/o'', ''in/B/i'')]\<rparr>"





section \<open>Properties of the viewport transform\<close>

lemma matrixTransform_multiply:
  "matrixTransform p (multiply M N) = matrixTransform (matrixTransform p N) M"
  by (simp add: matrixTransform_def multiply_def algebra_simps)

lemma det_multiply: "det (multiply M N) = det M * det N"
  by (simp add: det_def multiply_def algebra_simps)

lemma inverse_matrix_Some: "det M \<noteq> 0 \<Longrightarrow> \<exists>I. inverse_matrix M = Some I"
  by (simp add: inverse_matrix_def)

lemma inverse_matrix_left:
  assumes "inverse_matrix M = Some I"
  shows "matrixTransform (matrixTransform p M) I = p"
proof -
  from assms have d: "det M \<noteq> 0" by (auto simp: inverse_matrix_def split: if_splits)
  from assms d have I: "I = \<lparr> m_a = m_d M / det M, m_b = - m_b M / det M, m_c = - m_c M / det M,
       m_d = m_a M / det M, m_e = (m_c M * m_f M - m_d M * m_e M) / det M,
       m_f = (m_b M * m_e M - m_a M * m_f M) / det M \<rparr>"
    by (simp add: inverse_matrix_def)
  obtain x y where p: "p = (x, y)" by (cases p)
  define u where "u = m_a M * x + m_c M * y + m_e M"
  define v where "v = m_b M * x + m_d M * y + m_f M"
  have q: "matrixTransform (x, y) M = (u, v)"
    by (simp add: matrixTransform_def u_def v_def)
  have "m_d M * u - m_c M * v + (m_c M * m_f M - m_d M * m_e M) = det M * x"
    by (simp add: det_def u_def v_def algebra_simps)
  then have 1: "m_d M / det M * u + - m_c M / det M * v
                  + (m_c M * m_f M - m_d M * m_e M) / det M = x"
    using d by (simp add: add_divide_distrib [symmetric] diff_divide_distrib [symmetric])
  have "- m_b M * u + m_a M * v + (m_b M * m_e M - m_a M * m_f M) = det M * y"
    by (simp add: det_def u_def v_def algebra_simps)
  then have 2: "- m_b M / det M * u + m_a M / det M * v
                  + (m_b M * m_e M - m_a M * m_f M) / det M = y"
    using d by (simp add: add_divide_distrib [symmetric] diff_divide_distrib [symmetric])
  have "matrixTransform (u, v) I = (x, y)"
    unfolding I using 1 2 by (simp add: matrixTransform_def)
  then show ?thesis
    by (simp add: p q)
qed

lemma inverse_matrix_right:
  assumes "inverse_matrix M = Some I"
  shows "matrixTransform (matrixTransform p I) M = p"
proof -
  from assms have d: "det M \<noteq> 0" by (auto simp: inverse_matrix_def split: if_splits)
  from assms d have I: "I = \<lparr> m_a = m_d M / det M, m_b = - m_b M / det M, m_c = - m_c M / det M,
       m_d = m_a M / det M, m_e = (m_c M * m_f M - m_d M * m_e M) / det M,
       m_f = (m_b M * m_e M - m_a M * m_f M) / det M \<rparr>"
    by (simp add: inverse_matrix_def)
  obtain x y where p: "p = (x, y)" by (cases p)
  define X where "X = m_d M * x - m_c M * y + (m_c M * m_f M - m_d M * m_e M)"
  define Y where "Y = - m_b M * x + m_a M * y + (m_b M * m_e M - m_a M * m_f M)"
  have q: "matrixTransform (x, y) I = (X / det M, Y / det M)"
    unfolding I matrixTransform_def X_def Y_def
    by (simp add: add_divide_distrib diff_divide_distrib)
  have "m_a M * X + m_c M * Y = det M * (x - m_e M)"
    by (simp add: det_def X_def Y_def algebra_simps)
  then have 1: "m_a M * (X / det M) + m_c M * (Y / det M) = x - m_e M"
    using d by (simp add: add_divide_distrib [symmetric])
  have "m_b M * X + m_d M * Y = det M * (y - m_f M)"
    by (simp add: det_def X_def Y_def algebra_simps)
  then have 2: "m_b M * (X / det M) + m_d M * (Y / det M) = y - m_f M"
    using d by (simp add: add_divide_distrib [symmetric])
  have "matrixTransform (X / det M, Y / det M) M = (x, y)"
    using 1 2 by (simp add: matrixTransform_def)
  then show ?thesis
    by (simp add: p q)
qed

lemma translateMouseCoords_Some:
  assumes "det (root_ctm w) \<noteq> 0" "det (wf_matrix w) \<noteq> 0"
  shows "\<exists>c. translateMouseCoords w x y = Some c \<and> matrixTransform c (getScreenCTM w) = (x, y)"
proof -
  have "det (getScreenCTM w) \<noteq> 0" using assms by (simp add: getScreenCTM_def det_multiply)
  then obtain I where I: "inverse_matrix (getScreenCTM w) = Some I"
    using inverse_matrix_Some by blast
  then show ?thesis
    by (simp add: translateMouseCoords_def inverse_matrix_right)
qed

lemma translateMouseCoords_of_image:
  assumes "det (root_ctm w) \<noteq> 0" "det (wf_matrix w) \<noteq> 0"
    and "matrixTransform c (getScreenCTM w) = (x, y)"
  shows "translateMouseCoords w x y = Some c"
proof -
  have "det (getScreenCTM w) \<noteq> 0" using assms by (simp add: getScreenCTM_def det_multiply)
  then obtain I where I: "inverse_matrix (getScreenCTM w) = Some I"
    using inverse_matrix_Some by blast
  have "matrixTransform (matrixTransform c (getScreenCTM w)) I = c"
    using I by (rule inverse_matrix_left)
  then show ?thesis using I assms(3) by (simp add: translateMouseCoords_def)
qed

text \<open>
  C1. Anchor invariance of scaling. Let the transform of the workflow group be a uniform
  scale with a translation, as the constructor sets it and \<^verbatim>\<open>scaleWorkflow\<close> keeps it,
  and let the svg root have an invertible screen transform. For every factor \<open>s\<close> with
  \<open>0.15 < s\<close> and \<open>s\<^sup>2 \<le> 3\<close> and every anchor \<open>(px, py)\<close> on the screen, the call
  \<^verbatim>\<open>scaleWorkflow(s, anchor)\<close> succeeds, the canvas point \<open>c\<close> that lay under the anchor
  before the call is drawn at the anchor after it, and the anchor is converted to
  \<open>c\<close> again after the call. Over the real numbers the two canvas points are equal, so
  they differ by less than every positive epsilon.
\<close>

theorem scaleWorkflow_anchor_invariant:
  assumes band: "0.15 < s" "s * s \<le> 3"
    and inv: "m_b (wf_matrix w) = 0" "m_c (wf_matrix w) = 0"
      "m_a (wf_matrix w) = m_d (wf_matrix w)" "m_a (wf_matrix w) \<noteq> 0"
      "det (root_ctm w) \<noteq> 0"
  shows "\<exists>c w'. translateMouseCoords w px py = Some c
           \<and> scaleWorkflow w s (Some (px, py)) = Some w'
           \<and> matrixTransform c (getScreenCTM w') = (px, py)
           \<and> translateMouseCoords w' px py = Some c"
proof -
  let ?W = "wf_matrix w"
  have dW: "det ?W \<noteq> 0" using inv by (simp add: det_def)
  obtain c where c: "translateMouseCoords w px py = Some c"
    and img: "matrixTransform c (getScreenCTM w) = (px, py)"
    using translateMouseCoords_Some [OF inv(5) dW] by blast
  have c1: "translateMouseCoords (w\<lparr>scale := s\<rparr>) px py = Some c"
    using c by (simp add: translateMouseCoords_def getScreenCTM_def)
  define W' where "W' = ?W\<lparr> m_a := s, m_d := s,
      m_e := m_e ?W + m_a ?W * fst c - s * fst c,
      m_f := m_f ?W + m_a ?W * snd c - s * snd c \<rparr>"
  define w' where "w' = w\<lparr> scale := s, wf_matrix := W',
      labels := map (\<lambda>m. (labelScale s, labelScale s)) (labels w),
      eventHub := hub_on ''workflow.fit'' FitHandler (eventHub w) \<rparr>"
  have sw: "scaleWorkflow w s (Some (px, py)) = Some w'"
    using c1 by (simp add: scaleWorkflow_def Let_def w'_def W'_def)
  have same: "matrixTransform c W' = matrixTransform c ?W"
    using inv by (simp add: matrixTransform_def W'_def)
  have img': "matrixTransform c (getScreenCTM w') = (px, py)"
    using img same by (simp add: getScreenCTM_def matrixTransform_multiply w'_def)
  have "s \<noteq> 0" using band by auto
  then have dW': "det (wf_matrix w') \<noteq> 0"
    using inv by (simp add: det_def w'_def W'_def)
  have dR': "det (root_ctm w') \<noteq> 0" using inv by (simp add: w'_def)
  have "translateMouseCoords w' px py = Some c"
    using translateMouseCoords_of_image [OF dR' dW' img'] .
  with c sw img' show ?thesis by blast
qed


theorem scaleWorkflow_anchor_invariant_witness:
  "(0.15 :: real) < 3 / 2 \<and> (3 / 2 :: real) * (3 / 2) \<le> 3 \<and>
   (\<exists>c w'. translateMouseCoords (new_Workflow identity_matrix []) 10 20 = Some c
           \<and> scaleWorkflow (new_Workflow identity_matrix []) (3 / 2) (Some (10, 20)) = Some w'
           \<and> matrixTransform c (getScreenCTM w') = (10, 20)
           \<and> translateMouseCoords w' 10 20 = Some c)"
  using scaleWorkflow_anchor_invariant [of "3 / 2" "new_Workflow identity_matrix []" 10 20]
  by (simp add: new_Workflow_def identity_matrix_def det_def)

lemma scaleWorkflow_fields:
  assumes "scaleWorkflow w s ev = Some w'"
  shows "scale w' = s"
    and "eventHub w' = hub_on ''workflow.fit'' FitHandler (eventHub w)"
    and "m_a (wf_matrix w') = s" and "m_d (wf_matrix w') = s"
  using assms
  by (auto simp: scaleWorkflow_def Let_def split: option.splits)

lemma example_rendered_first_call:
  "scaleWorkflow (new_Workflow identity_matrix []) 1 None = Some example_rendered"
  by (simp add: scaleWorkflow_def translateMouseCoords_def getScreenCTM_def
      inverse_matrix_def multiply_def det_def matrixTransform_def new_Workflow_def
      identity_matrix_def Let_def example_rendered_def)

lemma example_rendered_reachable: "reachable (example_rendered, NoDrag)"
  using reachable.scaled [OF reachable.init example_rendered_first_call] .

lemma example_rendered_fields:
  "scale example_rendered = 1"
  "wf_matrix example_rendered = identity_matrix"
  "root_ctm example_rendered = identity_matrix"
  "isDragging example_rendered = False"
  by (simp_all add: example_rendered_def new_Workflow_def)

lemma example_rendered_scale:
  "scaleWorkflow example_rendered s None =
     Some (example_rendered
       \<lparr> scale := s,
         wf_matrix := identity_matrix\<lparr>m_a := s, m_d := s\<rparr>,
         eventHub := hub_on ''workflow.fit'' FitHandler (eventHub example_rendered) \<rparr>)"
  by (simp add: scaleWorkflow_def translateMouseCoords_def getScreenCTM_def
      inverse_matrix_def multiply_def det_def matrixTransform_def new_Workflow_def
      identity_matrix_def Let_def example_rendered_def)

text \<open>
  C4, as stated, fails: \<^verbatim>\<open>scaleWorkflow\<close> has no test of its argument. On the workflow
  as the constructor leaves it, that is after the first call
  \<^verbatim>\<open>scaleWorkflow(this.scale)\<close> of \<^verbatim>\<open>renderModel\<close>, a further call with the factor
  \<open>0.1\<close>, which is outside the zoom band, stores the factor as the scale and writes
  it into the transform.
\<close>

theorem scaleWorkflow_out_of_band_counterexample:
  "scaleWorkflow (new_Workflow identity_matrix []) 1 None = Some example_rendered \<and>
   \<not> inZoomBand (1 / 10) \<and>
   scale example_rendered = 1 \<and>
   m_a (wf_matrix example_rendered) = 1 \<and>
   map_option scale (scaleWorkflow example_rendered (1 / 10) None) = Some (1 / 10) \<and>
   map_option (m_a \<circ> wf_matrix) (scaleWorkflow example_rendered (1 / 10) None) = Some (1 / 10) \<and>
   scaleWorkflow example_rendered (1 / 10) None \<noteq> Some example_rendered"
proof -
  have "scaleWorkflow example_rendered (1 / 10) None \<noteq> Some example_rendered"
  proof
    assume "scaleWorkflow example_rendered (1 / 10) None = Some example_rendered"
    then have "map_option scale (scaleWorkflow example_rendered (1 / 10) None) = Some (scale example_rendered)"
      by simp
    then show False
      by (simp add: example_rendered_scale example_rendered_fields)
  qed
  moreover have "\<not> inZoomBand (1 / 10)"
    by (simp add: inZoomBand_def)
  moreover have "m_a (wf_matrix example_rendered) = 1"
    by (simp add: example_rendered_fields identity_matrix_def)
  moreover have "map_option scale (scaleWorkflow example_rendered (1 / 10) None) = Some (1 / 10)"
    by (simp add: example_rendered_scale)
  moreover have
    "map_option (m_a \<circ> wf_matrix) (scaleWorkflow example_rendered (1 / 10) None) = Some (1 / 10)"
    by (simp add: example_rendered_scale)
  ultimately show ?thesis
    using example_rendered_first_call example_rendered_fields(1) by blast
qed

text \<open>
  C4, amended. \<^verbatim>\<open>scaleWorkflow\<close> applies every factor it is given: a call that returns
  has stored the factor as the scale and written it into the transform. The zoom band
  is kept by the wheel listener: a wheel event whose resulting scale
  \<open>scale + deltaY / 500\<close> is outside the band leaves the whole state unchanged
  (transform, stored scale, labels and all the rest), and a wheel event never takes a
  scale that is in the band out of it.
\<close>

theorem mousewheel_zoom_band:
  "(scaleWorkflow w s a = Some w1 \<longrightarrow>
      scale w1 = s \<and> m_a (wf_matrix w1) = s \<and> m_d (wf_matrix w1) = s) \<and>
   (\<not> inZoomBand (scale w + deltaY / 500) \<longrightarrow> mousewheel w deltaY ev = Some w) \<and>
   (mousewheel w deltaY ev = Some w' \<longrightarrow> inZoomBand (scale w) \<longrightarrow> inZoomBand (scale w'))"
proof (intro conjI impI)
  assume c: "scaleWorkflow w s a = Some w1"
  show "scale w1 = s" using scaleWorkflow_fields(1) [OF c] .
  show "m_a (wf_matrix w1) = s" using scaleWorkflow_fields(3) [OF c] .
  show "m_d (wf_matrix w1) = s" using scaleWorkflow_fields(4) [OF c] .
next
  assume "\<not> inZoomBand (scale w + deltaY / 500)"
  then show "mousewheel w deltaY ev = Some w"
    by (simp add: mousewheel_def inZoomBand_def Let_def)
next
  assume m: "mousewheel w deltaY ev = Some w'" and b: "inZoomBand (scale w)"
  show "inZoomBand (scale w')"
  proof (cases "isDragging w \<or> \<not> inZoomBand (scale w + deltaY / 500)")
    case True
    then have "mousewheel w deltaY ev = Some w"
      by (auto simp: mousewheel_def inZoomBand_def Let_def)
    with m b show ?thesis by simp
  next
    case False
    then have "mousewheel w deltaY ev = scaleWorkflow w (scale w + deltaY / 500) (Some ev)"
      by (auto simp: mousewheel_def inZoomBand_def Let_def)
    with m have "scale w' = scale w + deltaY / 500"
      using scaleWorkflow_fields(1) by simp
    with False show ?thesis by simp
  qed
qed

theorem mousewheel_zoom_band_witness:
  "scaleWorkflow example_rendered (1 / 10) None \<noteq> None \<and>
   scale (the (scaleWorkflow example_rendered (1 / 10) None)) = 1 / 10 \<and>
   m_a (wf_matrix (the (scaleWorkflow example_rendered (1 / 10) None))) = 1 / 10 \<and>
   \<not> inZoomBand (scale example_rendered + 1000 / 500) \<and>
   mousewheel example_rendered 1000 (10, 20) = Some example_rendered \<and>
   inZoomBand (scale example_rendered) \<and>
   mousewheel example_rendered 100 (10, 20) \<noteq> None \<and>
   scale (the (mousewheel example_rendered 100 (10, 20))) = 6 / 5 \<and>
   inZoomBand (scale (the (mousewheel example_rendered 100 (10, 20))))"
proof -
  let ?w = "example_rendered"
  obtain w1 where w1: "scaleWorkflow ?w (1 / 10) None = Some w1"
    by (simp add: example_rendered_scale)
  have 1: "\<not> inZoomBand (scale ?w + 1000 / 500)"
    by (simp add: inZoomBand_def example_rendered_fields)
  have 2: "inZoomBand (scale ?w)"
    by (simp add: inZoomBand_def example_rendered_fields)
  have d: "det (root_ctm ?w) \<noteq> 0" "det (wf_matrix ?w) \<noteq> 0"
    by (simp_all add: example_rendered_fields det_def identity_matrix_def)
  have b: "inZoomBand (scale ?w + 100 / 500)"
    by (simp add: inZoomBand_def example_rendered_fields)
  have "det (root_ctm (?w\<lparr>scale := 6 / 5\<rparr>)) \<noteq> 0" "det (wf_matrix (?w\<lparr>scale := 6 / 5\<rparr>)) \<noteq> 0"
    using d by simp_all
  from translateMouseCoords_Some [OF this, of 10 20]
  obtain c where "translateMouseCoords (?w\<lparr>scale := 6 / 5\<rparr>) 10 20 = Some c" by blast
  then have "scaleWorkflow ?w (6 / 5) (Some (10, 20)) \<noteq> None"
    by (simp add: scaleWorkflow_def Let_def)
  then have 3: "mousewheel ?w 100 (10, 20) \<noteq> None"
    by (simp add: mousewheel_def Let_def example_rendered_fields)
  then obtain w' where w': "mousewheel ?w 100 (10, 20) = Some w'" by blast
  then have "scaleWorkflow ?w (6 / 5) (Some (10, 20)) = Some w'"
    by (simp add: mousewheel_def Let_def example_rendered_fields)
  then have s: "scale w' = 6 / 5" by (rule scaleWorkflow_fields(1))
  from mousewheel_zoom_band [of ?w "1 / 10" None w1 1000 "(10, 20)" w'] w1 1
  have 4: "scale w1 = 1 / 10" "m_a (wf_matrix w1) = 1 / 10"
    "mousewheel ?w 1000 (10, 20) = Some ?w"
    by simp_all
  from mousewheel_zoom_band [of ?w "1 / 10" None w1 100 "(10, 20)" w'] w' 2
  have 5: "inZoomBand (scale w')" by blast
  have 6: "scaleWorkflow ?w (1 / 10) None \<noteq> None" using w1 by simp
  have 7: "the (scaleWorkflow ?w (1 / 10) None) = w1" using w1 by simp
  have 8: "the (mousewheel ?w 100 (10, 20)) = w'" using w' by simp
  show ?thesis
    unfolding 7 8 using 1 2 3 4 5 6 s by blast
qed

lemma fold_replicate_funpow: "fold f (replicate n x) = f x ^^ n"
  by (induction n) (simp_all add: funpow_swap1 fun_eq_iff)

lemma scaleWorkflows_fit:
  "scaleWorkflows w calls = Some w' \<Longrightarrow>
   eventHub w' ''workflow.fit'' = eventHub w ''workflow.fit'' @ replicate (length calls) FitHandler"
proof (induction calls arbitrary: w)
  case Nil
  then show ?case by simp
next
  case (Cons c cs)
  then obtain w1 where 1: "scaleWorkflow w (fst c) (snd c) = Some w1"
    and 2: "scaleWorkflows w1 cs = Some w'"
    by (auto split: option.splits)
  have "eventHub w1 ''workflow.fit'' = eventHub w ''workflow.fit'' @ [FitHandler]"
    using scaleWorkflow_fields(2) [OF 1] by (simp add: hub_on_def)
  with Cons.IH [OF 2] show ?case
    by (simp add: replicate_app_Cons_same)
qed

text \<open>
  C10. No handler for \<^verbatim>\<open>workflow.fit\<close> is subscribed on the hub of a new workflow;
  every successful call of \<^verbatim>\<open>scaleWorkflow\<close> subscribes one more; so after \<open>n\<close> calls
  from a state without such a handler there are \<open>n\<close> of them, and emitting
  \<^verbatim>\<open>workflow.fit\<close> once runs the fit routine \<open>n\<close> times.
\<close>

theorem scaleWorkflow_subscribes_fit:
  "eventHub (new_Workflow rootCTM es) ''workflow.fit'' = [] \<and>
   (scaleWorkflow w s a = Some w1 \<longrightarrow>
      eventHub w1 ''workflow.fit'' = eventHub w ''workflow.fit'' @ [FitHandler]) \<and>
   (eventHub w ''workflow.fit'' = [] \<longrightarrow> scaleWorkflows w calls = Some w' \<longrightarrow>
      eventHub w' ''workflow.fit'' = replicate (length calls) FitHandler \<and>
      emit run ''workflow.fit'' w' = (run FitHandler ^^ length calls) w')"
proof (intro conjI impI)
  show "eventHub (new_Workflow rootCTM es) ''workflow.fit'' = []"
    by (simp add: new_Workflow_def)
next
  assume "scaleWorkflow w s a = Some w1"
  then show "eventHub w1 ''workflow.fit'' = eventHub w ''workflow.fit'' @ [FitHandler]"
    using scaleWorkflow_fields(2) by (simp add: hub_on_def)
next
  assume e: "eventHub w ''workflow.fit'' = []" and c: "scaleWorkflows w calls = Some w'"
  show h: "eventHub w' ''workflow.fit'' = replicate (length calls) FitHandler"
    using scaleWorkflows_fit [OF c] e by simp
  show "emit run ''workflow.fit'' w' = (run FitHandler ^^ length calls) w'"
    by (simp add: emit_def h fold_replicate_funpow)
qed


theorem scaleWorkflow_subscribes_fit_witness:
  "eventHub (new_Workflow identity_matrix []) ''workflow.fit'' = [] \<and>
   scaleWorkflows (new_Workflow identity_matrix []) [(1, None), (1 / 2, Some (10, 20))] \<noteq> None \<and>
   eventHub (the (scaleWorkflows (new_Workflow identity_matrix []) [(1, None), (1 / 2, Some (10, 20))]))
      ''workflow.fit'' = [FitHandler, FitHandler] \<and>
   emit (\<lambda>h w. w\<lparr>scale := scale w + 1\<rparr>) ''workflow.fit''
      (the (scaleWorkflows (new_Workflow identity_matrix []) [(1, None), (1 / 2, Some (10, 20))]))
    = ((\<lambda>w. w\<lparr>scale := scale w + 1\<rparr>) ^^ 2)
      (the (scaleWorkflows (new_Workflow identity_matrix []) [(1, None), (1 / 2, Some (10, 20))]))"
proof -
  let ?w = "new_Workflow identity_matrix []"
  let ?calls = "[(1, None), (1 / 2, Some (10, 20))] :: (real \<times> point option) list"
  have e: "eventHub ?w ''workflow.fit'' = []"
    by (simp add: new_Workflow_def)
  have "scaleWorkflows ?w ?calls \<noteq> None"
    by (simp add: scaleWorkflow_def translateMouseCoords_def getScreenCTM_def
      inverse_matrix_def multiply_def det_def matrixTransform_def new_Workflow_def
      identity_matrix_def Let_def)
  then obtain w' where w': "scaleWorkflows ?w ?calls = Some w'" by blast
  from scaleWorkflow_subscribes_fit [of identity_matrix "[]" ?w 1 None ?w ?calls w'
      "\<lambda>h w. w\<lparr>scale := scale w + 1\<rparr>"] e w'
  have "eventHub w' ''workflow.fit'' = replicate (length ?calls) FitHandler \<and>
        emit (\<lambda>h w. w\<lparr>scale := scale w + 1\<rparr>) ''workflow.fit'' w'
          = ((\<lambda>w. w\<lparr>scale := scale w + 1\<rparr>) ^^ length ?calls) w'"
    by blast
  with e w' show ?thesis by (simp add: numeral_2_eq_2)
qed

section \<open>Properties of the boundary auto-scroll\<close>

lemma resizeDragBoundary_stop:
  "\<not> (r_right r - b \<le> r_left r + b \<or> r_right r \<le> r_left r + (b * 4))
     \<Longrightarrow> resizeDragBoundary r b = Some b"
  by (subst resizeDragBoundary.simps) simp

lemma clearInterval_fields [simp]:
  "dragBoundaryInterval (clearInterval h w) = dragBoundaryInterval w"
  "scale (clearInterval h w) = scale w"
  "wf_matrix (clearInterval h w) = wf_matrix w"
  "root_ctm (clearInterval h w) = root_ctm w"
  "edges (clearInterval h w) = edges w"
  "nodes (clearInterval h w) = nodes w"
  "beforeChange (clearInterval h w) = beforeChange w"
  "model_calls (clearInterval h w) = model_calls w"
  "workflowBoundingClientRect (clearInterval h w) = workflowBoundingClientRect w"
  "dragBoundary (clearInterval h w) = dragBoundary w"
  by (simp_all add: clearInterval_def split: option.splits)

lemma clearInterval_tracked:
  "\<forall>iv \<in> set (timers w). h = Some (iv_handle iv) \<Longrightarrow> timers (clearInterval h w) = []"
  by (cases h) (auto simp: clearInterval_def filter_empty_conv)

lemma setDragBoundaryIntervalToDefault_inv:
  assumes "\<forall>iv \<in> set (timers w). dbi_interval (dragBoundaryInterval w) = Some (iv_handle iv)"
    and "dbi_interval (dragBoundaryInterval w) = None \<longrightarrow>
        \<not> dbi_x (dragBoundaryInterval w) \<and> \<not> dbi_y (dragBoundaryInterval w) \<and>
        dbi_highlightedPort (dragBoundaryInterval w) = None"
  shows "timers (setDragBoundaryIntervalToDefault w) = []"
    and "dragBoundaryInterval (setDragBoundaryIntervalToDefault w) = dragBoundaryInterval_default"
proof -
  show "timers (setDragBoundaryIntervalToDefault w) = []"
  proof (cases "dbi_interval (dragBoundaryInterval w)")
    case None
    with assms(1) have "timers w = []" by (cases "timers w") auto
    with None show ?thesis by (simp add: setDragBoundaryIntervalToDefault_def)
  next
    case (Some h)
    with assms(1) show ?thesis
      by (simp add: setDragBoundaryIntervalToDefault_def clearInterval_tracked)
  qed
  show "dragBoundaryInterval (setDragBoundaryIntervalToDefault w) = dragBoundaryInterval_default"
    using assms(2)
    by (cases "dbi_interval (dragBoundaryInterval w)")
       (simp_all add: setDragBoundaryIntervalToDefault_def dragBoundaryInterval_default_def)
qed

lemma setDragBoundaryIntervalToDefault_frame [simp]:
  "scale (setDragBoundaryIntervalToDefault w) = scale w"
  "wf_matrix (setDragBoundaryIntervalToDefault w) = wf_matrix w"
  "root_ctm (setDragBoundaryIntervalToDefault w) = root_ctm w"
  "edges (setDragBoundaryIntervalToDefault w) = edges w"
  "nodes (setDragBoundaryIntervalToDefault w) = nodes w"
  "beforeChange (setDragBoundaryIntervalToDefault w) = beforeChange w"
  "model_calls (setDragBoundaryIntervalToDefault w) = model_calls w"
  "workflowBoundingClientRect (setDragBoundaryIntervalToDefault w) = workflowBoundingClientRect w"
  "dragBoundary (setDragBoundaryIntervalToDefault w) = dragBoundary w"
  by (simp_all add: setDragBoundaryIntervalToDefault_def Let_def)

lemma getBoundaryZonesXYAxes_inv:
  assumes "scroll_inv w d" "getBoundaryZonesXYAxes w x y = (w', b)"
  shows "scroll_inv w' d"
proof -
  have t: "\<forall>iv \<in> set (timers w). dbi_interval (dragBoundaryInterval w) = Some (iv_handle iv)"
    using assms(1) by (simp add: scroll_inv_def)
  show ?thesis
  proof (cases "\<not> isLeftBoundary w x \<and> \<not> isRightBoundary w x \<and> \<not> isTopBoundary w y \<and>
                \<not> isBottomBoundary w y \<and> dbi_interval (dragBoundaryInterval w) \<noteq> None")
    case True
    then have w': "w' = (clearInterval (dbi_interval (dragBoundaryInterval w)) w)
                      \<lparr>dragBoundaryInterval := (dragBoundaryInterval w)
                         \<lparr>dbi_x := False, dbi_y := False, dbi_interval := None,
                          dbi_highlightedPort := None\<rparr>\<rparr>"
      using assms(2) by (simp add: getBoundaryZonesXYAxes_def Let_def)
    have "timers w' = []"
      unfolding w' using clearInterval_tracked [OF t] by simp
    moreover have "dbi_interval (dragBoundaryInterval w') = None"
      "\<not> dbi_x (dragBoundaryInterval w')" "\<not> dbi_y (dragBoundaryInterval w')"
      "dbi_highlightedPort (dragBoundaryInterval w') = None"
      unfolding w' by simp_all
    moreover have "\<not> scrolling d \<Longrightarrow> False"
      using assms(1) True by (auto simp: scroll_inv_def dragBoundaryInterval_default_def)
    ultimately show ?thesis by (auto simp: scroll_inv_def)
  next
    case False
    then have "w' = w"
      using assms(2) by (auto simp: getBoundaryZonesXYAxes_def Let_def)
    with assms(1) show ?thesis by simp
  qed
qed


lemma scroll_inv_scrolling:
  "scrolling d \<Longrightarrow> scrolling d' \<Longrightarrow> scroll_inv w d \<Longrightarrow> scroll_inv w d'"
  by (simp add: scroll_inv_def)

lemma startInterval_timers:
  assumes "\<forall>iv \<in> set (timers w). dbi_interval (dragBoundaryInterval w) = Some (iv_handle iv)"
  shows "timers (startInterval w b g) = [\<lparr>iv_handle = next_timer w, iv_boundary = b, iv_ghostIO = g\<rparr>]"
    and "dbi_interval (dragBoundaryInterval (startInterval w b g)) = Some (next_timer w)"
proof -
  have n: "next_timer (clearInterval h v) = next_timer v" for h v
    by (simp add: clearInterval_def split: option.splits)
  have di: "dbi_interval (case g of None \<Rightarrow> (dragBoundaryInterval w)\<lparr>dbi_x := p, dbi_y := q\<rparr>
              | Some gio \<Rightarrow> (dragBoundaryInterval w)\<lparr>dbi_x := p, dbi_y := q,
                                  dbi_highlightedPort := gio_highlightedPort gio\<rparr>)
            = dbi_interval (dragBoundaryInterval w)" for p q
    by (cases g) simp_all
  have c: "timers (clearInterval (dbi_interval (dragBoundaryInterval w)) w) = []"
    using clearInterval_tracked [OF assms] .
  show "timers (startInterval w b g) = [\<lparr>iv_handle = next_timer w, iv_boundary = b, iv_ghostIO = g\<rparr>]"
    by (simp add: startInterval_def Let_def setInterval_def n di c)
  show "dbi_interval (dragBoundaryInterval (startInterval w b g)) = Some (next_timer w)"
    by (simp add: startInterval_def Let_def setInterval_def n di c)
qed

lemma setDragBoundaryIntervalIfNecessary_cases:
  assumes "setDragBoundaryIntervalIfNecessary w b g = Some w'"
  shows "\<exists>b'. resizeDragBoundary (workflowBoundingClientRect w) (dragBoundary w) = Some b' \<and>
          (w' = w\<lparr>dragBoundary := b'\<rparr> \<or> w' = startInterval (w\<lparr>dragBoundary := b'\<rparr>) b g)"
  using assms
  by (auto simp: setDragBoundaryIntervalIfNecessary_def Let_def split: option.splits if_splits)

lemma setDragBoundaryIntervalIfNecessary_inv:
  assumes "scroll_inv w d" "scrolling d" "setDragBoundaryIntervalIfNecessary w b g = Some w'"
  shows "scroll_inv w' d"
proof -
  obtain b' where "w' = w\<lparr>dragBoundary := b'\<rparr> \<or> w' = startInterval (w\<lparr>dragBoundary := b'\<rparr>) b g"
    using setDragBoundaryIntervalIfNecessary_cases [OF assms(3)] by blast
  then show ?thesis
  proof
    assume "w' = w\<lparr>dragBoundary := b'\<rparr>"
    with assms(1) show ?thesis by (simp add: scroll_inv_def)
  next
    assume w': "w' = startInterval (w\<lparr>dragBoundary := b'\<rparr>) b g"
    have t: "\<forall>iv \<in> set (timers (w\<lparr>dragBoundary := b'\<rparr>)).
               dbi_interval (dragBoundaryInterval (w\<lparr>dragBoundary := b'\<rparr>)) = Some (iv_handle iv)"
      using assms(1) by (simp add: scroll_inv_def)
    show ?thesis
      using assms(2) startInterval_timers [OF t, of b g]
      by (simp add: scroll_inv_def w')
  qed
qed

lemma scaleWorkflow_frame:
  assumes "scaleWorkflow w s a = Some w'"
  shows "timers w' = timers w" "dragBoundaryInterval w' = dragBoundaryInterval w"
    "edges w' = edges w" "nodes w' = nodes w" "beforeChange w' = beforeChange w"
    "model_calls w' = model_calls w"
  using assms by (auto simp: scaleWorkflow_def Let_def split: option.splits)

lemma scaleWorkflow_inv:
  "scroll_inv w d \<Longrightarrow> scaleWorkflow w s a = Some w' \<Longrightarrow> scroll_inv w' d"
  using scaleWorkflow_frame(1,2) [of w s a w'] by (simp add: scroll_inv_def)

lemma mousewheel_inv:
  "scroll_inv w d \<Longrightarrow> mousewheel w deltaY ev = Some w' \<Longrightarrow> scroll_inv w' d"
  by (auto simp: mousewheel_def Let_def split: if_splits intro: scaleWorkflow_inv)

lemma tick_inv:
  assumes "scroll_inv w d" "iv \<in> set (timers w)" "tick iv w d = Some (w', d')"
  shows "scroll_inv w' d'"
proof -
  have s: "scrolling d"
    using assms(1,2) by (auto simp: scroll_inv_def)
  have i: "dbi_interval (dragBoundaryInterval w) = Some (iv_handle iv)"
    using assms(1,2) by (simp add: scroll_inv_def)
  have "timers w' = timers w \<and>
        dbi_interval (dragBoundaryInterval w') = dbi_interval (dragBoundaryInterval w) \<and>
        scrolling d'"
    using assms(3) s
    by (auto simp: tick_def Let_def scrolling_def
             split: Option.bind_splits drag.splits option.splits prod.splits)
  with assms(1) i show ?thesis by (simp add: scroll_inv_def)
qed

lemma new_Workflow_inv: "scroll_inv (new_Workflow rootCTM es) NoDrag"
  by (simp add: scroll_inv_def new_Workflow_def dragBoundaryInterval_default_def)

lemma nodeDragMove_inv:
  assumes "scroll_inv w (NodeDrag nd)" "nodeDragMove w nd dx dy ev = Some (w', nd')"
  shows "scroll_inv w' (NodeDrag nd')"
proof -
  obtain w1 b where g: "getBoundaryZonesXYAxes w (fst ev) (snd ev) = (w1, b)"
    by (cases "getBoundaryZonesXYAxes w (fst ev) (snd ev)")
  have 1: "scroll_inv w1 (NodeDrag nd)"
    using getBoundaryZonesXYAxes_inv [OF assms(1) g] .
  have "(fst b \<noteq> 0 \<or> snd b \<noteq> 0) \<and> setDragBoundaryIntervalIfNecessary w1 b None = Some w'
        \<or> w' = w1"
    using assms(2) g
    by (auto simp: nodeDragMove_def Let_def split: Option.bind_splits if_splits)
  then have "scroll_inv w' (NodeDrag nd)"
    using 1 setDragBoundaryIntervalIfNecessary_inv [of w1 "NodeDrag nd" b None w']
    by (auto simp: scrolling_def)
  then show ?thesis
    by (rule scroll_inv_scrolling [rotated 2]) (simp_all add: scrolling_def)
qed

lemma portDragMove_inv:
  assumes "scroll_inv w (PortDrag pd)" "portDragMove w pd dx dy ev ctm = Some (w', pd')"
  shows "scroll_inv w' (PortDrag pd')"
proof -
  obtain w1 b where g: "getBoundaryZonesXYAxes w (fst ev) (snd ev) = (w1, b)"
    by (cases "getBoundaryZonesXYAxes w (fst ev) (snd ev)")
  have 1: "scroll_inv w1 (PortDrag pd)"
    using getBoundaryZonesXYAxes_inv [OF assms(1) g] .
  have "(\<exists>gio. (fst b \<noteq> 0 \<or> snd b \<noteq> 0) \<and>
               setDragBoundaryIntervalIfNecessary w1 b gio = Some w') \<or> w' = w1"
    using assms(2) g
    by (auto simp: portDragMove_def Let_def split: Option.bind_splits if_splits prod.splits)
  then have "scroll_inv w' (PortDrag pd)"
    using 1 setDragBoundaryIntervalIfNecessary_inv [of w1 "PortDrag pd" b _ w']
    by (auto simp: scrolling_def)
  then show ?thesis
    by (rule scroll_inv_scrolling [rotated 2]) (simp_all add: scrolling_def)
qed

lemma getBoundaryZonesXYAxes_no_timer:
  "dbi_interval (dragBoundaryInterval w) = None \<Longrightarrow> fst (getBoundaryZonesXYAxes w x y) = w"
  by (simp add: getBoundaryZonesXYAxes_def Let_def)

lemma log_frame [simp]:
  "timers (emitBeforeChange k w) = timers w"
  "dragBoundaryInterval (emitBeforeChange k w) = dragBoundaryInterval w"
  "timers (modelCall c w) = timers w"
  "dragBoundaryInterval (modelCall c w) = dragBoundaryInterval w"
  "timers (spawnBetweenConnectionIDs w a b) = timers w"
  "dragBoundaryInterval (spawnBetweenConnectionIDs w a b) = dragBoundaryInterval w"
  "timers (setModelPosition w obj x y) = timers w"
  "dragBoundaryInterval (setModelPosition w obj x y) = dragBoundaryInterval w"
  by (simp_all add: emitBeforeChange_def modelCall_def spawnBetweenConnectionIDs_def
      setModelPosition_def)

lemma drag_end_reset:
  assumes "scroll_inv w d"
  shows "timers (setDragBoundaryIntervalToDefault (w\<lparr>isDragging := False\<rparr>)) = []"
    and "dragBoundaryInterval (setDragBoundaryIntervalToDefault (w\<lparr>isDragging := False\<rparr>))
           = dragBoundaryInterval_default"
proof -
  have 1: "\<forall>iv \<in> set (timers (w\<lparr>isDragging := False\<rparr>)).
             dbi_interval (dragBoundaryInterval (w\<lparr>isDragging := False\<rparr>)) = Some (iv_handle iv)"
    using assms by (simp add: scroll_inv_def)
  have 2: "dbi_interval (dragBoundaryInterval (w\<lparr>isDragging := False\<rparr>)) = None \<longrightarrow>
        \<not> dbi_x (dragBoundaryInterval (w\<lparr>isDragging := False\<rparr>)) \<and>
        \<not> dbi_y (dragBoundaryInterval (w\<lparr>isDragging := False\<rparr>)) \<and>
        dbi_highlightedPort (dragBoundaryInterval (w\<lparr>isDragging := False\<rparr>)) = None"
    using assms by (simp add: scroll_inv_def)
  show "timers (setDragBoundaryIntervalToDefault (w\<lparr>isDragging := False\<rparr>)) = []"
    using setDragBoundaryIntervalToDefault_inv(1) [OF 1 2] .
  show "dragBoundaryInterval (setDragBoundaryIntervalToDefault (w\<lparr>isDragging := False\<rparr>))
           = dragBoundaryInterval_default"
    using setDragBoundaryIntervalToDefault_inv(2) [OF 1 2] .
qed

lemma nodeDragEnd_reset:
  assumes "scroll_inv w d"
  shows "timers (nodeDragEnd w nd found) = []"
    and "dragBoundaryInterval (nodeDragEnd w nd found) = dragBoundaryInterval_default"
  using drag_end_reset [OF assms]
  by (simp_all add: nodeDragEnd_def Let_def split: option.splits)

lemma snapConnection_frame [simp]:
  "timers (snapConnection w origin hp) = timers w"
  "dragBoundaryInterval (snapConnection w origin hp) = dragBoundaryInterval w"
  "nodes (snapConnection w origin hp) = nodes w"
  by (simp_all add: snapConnection_def Let_def emitBeforeChange_def modelCall_def
      spawnBetweenConnectionIDs_def split: prod.splits)

lemma createIO_result:
  assumes "dbi_interval (dragBoundaryInterval w) = None" "createIO w origin ev newIO = Some w'"
  shows "timers w' = timers w" "dragBoundaryInterval w' = dragBoundaryInterval w"
    "\<exists>x y. nodes w' = nodes w @ [(newIO, x, y)]"
    "edges w' = edges w @ [(p_connection_id origin, newIO)]"
proof -
  let ?w3 = "modelCall (if startsWith (p_connection_id origin) ''in''
                          then CreateInputFromPort (p_connection_id origin)
                          else CreateOutputFromPort (p_connection_id origin))
               (emitBeforeChange (if startsWith (p_connection_id origin) ''in''
                                  then ''input.create'' else ''output.create'') w)"
  have "dbi_interval (dragBoundaryInterval ?w3) = None"
    using assms(1) by simp
  then have "fst (getBoundaryZonesXYAxes ?w3 (fst ev) (snd ev)) = ?w3"
    by (rule getBoundaryZonesXYAxes_no_timer)
  then obtain b where g: "getBoundaryZonesXYAxes ?w3 (fst ev) (snd ev) = (?w3, b)"
    by (cases "getBoundaryZonesXYAxes ?w3 (fst ev) (snd ev)") simp
  from assms(2) obtain x y c where
    s: "scaleWorkflow (spawnBetweenConnectionIDs
           (setModelPosition (?w3\<lparr>nodes := nodes ?w3 @ [(newIO, x, y)]\<rparr>) newIO (Some (fst c)) (Some (snd c)))
           (p_connection_id origin) newIO)
          (scale (spawnBetweenConnectionIDs
           (setModelPosition (?w3\<lparr>nodes := nodes ?w3 @ [(newIO, x, y)]\<rparr>) newIO (Some (fst c)) (Some (snd c)))
           (p_connection_id origin) newIO)) None = Some w'"
    unfolding createIO_def Let_def g split_conv
    by (auto split: Option.bind_splits)
  note f = scaleWorkflow_frame [OF s]
  show "timers w' = timers w" using f(1) by simp
  show "dragBoundaryInterval w' = dragBoundaryInterval w" using f(2) by simp
  show "\<exists>x y. nodes w' = nodes w @ [(newIO, x, y)]"
    using f(4) by (simp add: spawnBetweenConnectionIDs_def setModelPosition_def
        modelCall_def emitBeforeChange_def)
  show "edges w' = edges w @ [(p_connection_id origin, newIO)]"
    using f(3) by (simp add: spawnBetweenConnectionIDs_def setModelPosition_def
        modelCall_def emitBeforeChange_def)
qed

lemma portDragEnd_reset:
  assumes "scroll_inv w d" "portDragEnd w pd origin ev newIO = Some w'"
  shows "timers w' = [] \<and> dragBoundaryInterval w' = dragBoundaryInterval_default"
proof -
  let ?w1 = "setDragBoundaryIntervalToDefault (w\<lparr>isDragging := False\<rparr>)"
  note r = drag_end_reset [OF assms(1)]
  have none: "dbi_interval (dragBoundaryInterval ?w1) = None"
    by (simp add: r(2) dragBoundaryInterval_default_def)
  show ?thesis
  proof (cases "releaseTarget w pd")
    case (Some hp)
    then have "w' = snapConnection ?w1 origin hp"
      using assms(2) by (simp add: portDragEnd_def Let_def)
    then show ?thesis using r by simp
  next
    case None
    show ?thesis
    proof (cases "g_hidden (pd_ghostIONode pd)")
      case True
      then have "w' = ?w1"
        using assms(2) None by (simp add: portDragEnd_def Let_def)
      then show ?thesis using r by simp
    next
      case False
      then have c: "createIO ?w1 origin ev newIO = Some w'"
        using assms(2) None by (simp add: portDragEnd_def Let_def)
      show ?thesis using createIO_result(1,2) [OF none c] r by simp
    qed
  qed
qed

lemma scroll_inv_idle:
  "timers w = [] \<Longrightarrow> dragBoundaryInterval w = dragBoundaryInterval_default \<Longrightarrow> scroll_inv w d"
  by (simp add: scroll_inv_def dragBoundaryInterval_default_def)

lemma scroll_inv_idleD:
  "scroll_inv w d \<Longrightarrow> \<not> scrolling d \<Longrightarrow>
   timers w = [] \<and> dragBoundaryInterval w = dragBoundaryInterval_default"
  by (simp add: scroll_inv_def)

lemma reachable_inv: "reachable s \<Longrightarrow> scroll_inv (fst s) (snd s)"
proof (induction rule: reachable.induct)
  case (init rootCTM es)
  show ?case by (simp add: new_Workflow_inv)
next
  case (wheel w d deltaY ev w')
  then show ?case using mousewheel_inv by simp
next
  case (scaled w d s a w')
  then show ?case using scaleWorkflow_inv by simp
next
  case (timer w d iv w' d')
  then show ?case using tick_inv by simp
next
  case (node_start w rect el newX newY w' nd)
  from node_start.IH have "timers w = [] \<and> dragBoundaryInterval w = dragBoundaryInterval_default"
    using scroll_inv_idleD [of w NoDrag] by (simp add: scrolling_def)
  moreover from node_start.hyps
  have "timers w' = timers w" "dragBoundaryInterval w' = dragBoundaryInterval w"
    by (auto simp: nodeDragStart_def)
  ultimately show ?case by (simp add: scroll_inv_idle)
next
  case (node_move w nd dx dy ev w' nd')
  then show ?case using nodeDragMove_inv by simp
next
  case (node_end w nd found)
  then show ?case
    using nodeDragEnd_reset [of w "NodeDrag nd" nd found]
    by (simp add: scroll_inv_idle)
next
  case (pan_start w)
  then show ?case
    using scroll_inv_idleD [of w NoDrag] by (simp add: scrolling_def scroll_inv_idle)
next
  case (pan_move w xy dx dy)
  then show ?case
    using scroll_inv_idleD [of w "PanDrag xy"]
    by (simp add: scrolling_def scroll_inv_idle panMove_def)
next
  case (pan_end w xy)
  then show ?case
    using scroll_inv_idleD [of w "PanDrag xy"] by (simp add: scrolling_def scroll_inv_idle)
next
  case (port_start w rect origin ctm ports g w' pd)
  from port_start.IH have "timers w = [] \<and> dragBoundaryInterval w = dragBoundaryInterval_default"
    using scroll_inv_idleD [of w NoDrag] by (simp add: scrolling_def)
  moreover from port_start.hyps(2)
  have "w' = w\<lparr>isDragging := True, workflowBoundingClientRect := rect\<rparr>"
    by (simp add: portDragStart_def Let_def split: Option.bind_splits)
  ultimately show ?case by (simp add: scroll_inv_idle)
next
  case (port_move w pd dx dy ev ctm w' pd')
  then show ?case using portDragMove_inv by simp
next
  case (port_end w pd origin ev newIO w')
  then show ?case
    using portDragEnd_reset [of w "PortDrag pd" pd origin ev newIO w']
    by (simp add: scroll_inv_idle)
qed

lemma example_rect_resize: "resizeDragBoundary example_rect 50 = Some 50"
  by (rule resizeDragBoundary_stop) (simp add: example_rect_def)

lemma translateMouseCoords_identity:
  "wf_matrix w = identity_matrix\<lparr>m_e := e\<rparr> \<Longrightarrow> root_ctm w = identity_matrix \<Longrightarrow>
   translateMouseCoords w x y = Some (x - e, y)"
  by (simp add: translateMouseCoords_def getScreenCTM_def inverse_matrix_def multiply_def
      det_def matrixTransform_def identity_matrix_def)

lemma example_node_drag_eq:
  "example_node_drag =
     Some (example_boundary,
           example_nodeDrag\<lparr>nd_newX := Some 950, nd_newY := Some 400, nd_el := (950, 400)\<rparr>)"
proof -
  have s: "nodeDragStart (new_Workflow identity_matrix []) example_rect (100, 100) None None
             = (example_started, example_nodeDrag)"
    by (simp add: nodeDragStart_def example_started_def example_nodeDrag_def)
  have g: "getBoundaryZonesXYAxes example_started 980 400 = (example_started, (1, 0))"
    by (simp add: getBoundaryZonesXYAxes_def Let_def isLeftBoundary_def isRightBoundary_def
        isTopBoundary_def isBottomBoundary_def example_started_def new_Workflow_def
        example_rect_def)
  have r: "resizeDragBoundary (workflowBoundingClientRect example_started)
             (dragBoundary example_started) = Some 50"
    using example_rect_resize by (simp add: example_started_def new_Workflow_def)
  have i: "setDragBoundaryIntervalIfNecessary example_started (1, 0) None = Some example_boundary"
    by (simp add: setDragBoundaryIntervalIfNecessary_def r Let_def)
       (simp add: startInterval_def Let_def setInterval_def clearInterval_def
          example_started_def example_boundary_def example_interval_def new_Workflow_def
          dragBoundaryInterval_default_def)
  have t: "translateMouseCoords example_boundary x y = Some (x, y)" for x y
    using translateMouseCoords_identity [of example_boundary 0 x y]
    by (simp add: example_boundary_def example_started_def new_Workflow_def identity_matrix_def)
  have d: "getScaledDeltaXYForDrag example_boundary (1, 0) 100 100 880 300 = Some (850, 300)"
    by (simp add: getScaledDeltaXYForDrag_def Let_def t adaptToScale_def)
       (simp add: example_boundary_def example_started_def new_Workflow_def example_rect_def)
  show ?thesis
    by (simp add: example_node_drag_def s nodeDragMove_def g i d example_nodeDrag_def)
qed

lemma example_boundary_reachable:
  "reachable (example_boundary,
     NodeDrag (example_nodeDrag\<lparr>nd_newX := Some 950, nd_newY := Some 400, nd_el := (950, 400)\<rparr>))"
proof -
  have 0: "reachable (new_Workflow identity_matrix [], NoDrag)"
    by (rule reachable.init)
  have 1: "reachable (example_started, NodeDrag example_nodeDrag)"
    by (rule reachable.node_start [OF 0, of example_rect "(100, 100)" None None])
       (simp add: nodeDragStart_def example_started_def example_nodeDrag_def)
  have "nodeDragMove example_started example_nodeDrag 880 300 (980, 400) = example_node_drag"
    by (simp add: example_node_drag_def nodeDragStart_def example_started_def
        example_nodeDrag_def)
  then show ?thesis
    using reachable.node_move [OF 1, of 880 300 "(980, 400)"] example_node_drag_eq by simp
qed

lemma example_tick:
  "tick example_interval
     (example_boundary\<lparr> wf_matrix := identity_matrix\<lparr>m_e := e\<rparr>,
         dragBoundaryInterval :=
           \<lparr> dbi_x = True, dbi_y = False, dbi_interval = Some 1,
             dbi_xOffset = xo, dbi_yOffset = 0, dbi_highlightedPort = None \<rparr> \<rparr>)
     (NodeDrag (example_nodeDrag\<lparr>nd_newX := Some 950, nd_newY := Some 400, nd_el := (x, 400)\<rparr>))
   = Some (example_boundary\<lparr> wf_matrix := identity_matrix\<lparr>m_e := e - 5\<rparr>,
         dragBoundaryInterval :=
           \<lparr> dbi_x = True, dbi_y = False, dbi_interval = Some 1,
             dbi_xOffset = xo + 5, dbi_yOffset = 0, dbi_highlightedPort = None \<rparr> \<rparr>,
       NodeDrag (example_nodeDrag\<lparr>nd_newX := Some 950, nd_newY := Some 400, nd_el := (x + 5, 400)\<rparr>))"
  by (simp add: tick_def Let_def adaptToScale_def example_interval_def example_boundary_def
      example_started_def new_Workflow_def identity_matrix_def)

lemma example_scrolled_reachable:
  "reachable (example_scrolled,
     NodeDrag (example_nodeDrag\<lparr>nd_newX := Some 950, nd_newY := Some 400, nd_el := (965, 400)\<rparr>))"
proof -
  let ?s = "\<lambda>e xo. example_boundary\<lparr> wf_matrix := identity_matrix\<lparr>m_e := e\<rparr>,
         dragBoundaryInterval :=
           \<lparr> dbi_x = True, dbi_y = False, dbi_interval = Some 1,
             dbi_xOffset = xo, dbi_yOffset = 0, dbi_highlightedPort = None \<rparr> \<rparr>"
  let ?d = "\<lambda>x. NodeDrag (example_nodeDrag\<lparr>nd_newX := Some 950, nd_newY := Some 400, nd_el := (x, 400)\<rparr>)"
  have t: "example_interval \<in> set (timers (?s e xo))" for e xo
    by (simp add: example_boundary_def)
  have "?s 0 0 = example_boundary"
    by (simp add: example_boundary_def example_started_def new_Workflow_def identity_matrix_def)
  then have 0: "reachable (?s 0 0, ?d 950)"
    using example_boundary_reachable by simp
  have 1: "reachable (?s (-5) 5, ?d 955)"
    using reachable.timer [OF 0 t example_tick] by simp
  have 2: "reachable (?s (-10) 10, ?d 960)"
    using reachable.timer [OF 1 t example_tick] by simp
  have 3: "reachable (?s (-15) 15, ?d 965)"
    using reachable.timer [OF 2 t example_tick] by simp
  then show ?thesis by (simp add: example_scrolled_def)
qed

text \<open>
  C5, as stated, fails. In the example the pointer of a node drag has stayed in the
  right boundary band for three runs of the timer and then moves to \<open>(500, 400)\<close>, in
  the interior on both axes: \<^verbatim>\<open>getBoundaryZonesXYAxes\<close> leaves the accumulated
  \<^verbatim>\<open>xOffset\<close> at 15, so the auto-scroll state is not the default one.
\<close>

theorem getBoundaryZonesXYAxes_resets_all_counterexample:
  "\<not> isLeftBoundary example_scrolled 500 \<and> \<not> isRightBoundary example_scrolled 500 \<and>
   \<not> isTopBoundary example_scrolled 400 \<and> \<not> isBottomBoundary example_scrolled 400 \<and>
   dragBoundaryInterval (fst (getBoundaryZonesXYAxes example_scrolled 500 400))
     \<noteq> dragBoundaryInterval_default \<and>
   dbi_xOffset (dragBoundaryInterval (fst (getBoundaryZonesXYAxes example_scrolled 500 400))) = 15"
  by (simp add: getBoundaryZonesXYAxes_def Let_def isLeftBoundary_def isRightBoundary_def
      isTopBoundary_def isBottomBoundary_def example_scrolled_def example_boundary_def
      example_started_def new_Workflow_def example_rect_def dragBoundaryInterval_default_def)

text \<open>
  C5, amended. In every reachable state, when the pointer is in the interior of the
  canvas on both axes, \<^verbatim>\<open>getBoundaryZonesXYAxes\<close> reports no boundary, no boundary
  timer is alive afterwards, and the axis flags, the timer handle and the
  timer-highlighted port have their defaults, while the accumulated offsets
  \<^verbatim>\<open>xOffset\<close> and \<^verbatim>\<open>yOffset\<close> keep their values (they are reset when the drag ends).
\<close>

theorem getBoundaryZonesXYAxes_interior:
  assumes "reachable (w, d)"
    and "\<not> isLeftBoundary w x" "\<not> isRightBoundary w x"
    and "\<not> isTopBoundary w y" "\<not> isBottomBoundary w y"
  shows "snd (getBoundaryZonesXYAxes w x y) = (0, 0) \<and>
         timers (fst (getBoundaryZonesXYAxes w x y)) = [] \<and>
         dragBoundaryInterval (fst (getBoundaryZonesXYAxes w x y))
           = dragBoundaryInterval_default
               \<lparr> dbi_xOffset := dbi_xOffset (dragBoundaryInterval w),
                 dbi_yOffset := dbi_yOffset (dragBoundaryInterval w) \<rparr>"
proof -
  have inv: "scroll_inv w d"
    using reachable_inv [OF assms(1)] by simp
  then have t: "\<forall>iv \<in> set (timers w). dbi_interval (dragBoundaryInterval w) = Some (iv_handle iv)"
    by (simp add: scroll_inv_def)
  have b: "snd (getBoundaryZonesXYAxes w x y) = (0, 0)"
    using assms(2-5) by (simp add: getBoundaryZonesXYAxes_def Let_def)
  show ?thesis
  proof (cases "dbi_interval (dragBoundaryInterval w)")
    case None
    then have "fst (getBoundaryZonesXYAxes w x y) = w"
      by (rule getBoundaryZonesXYAxes_no_timer)
    moreover have "timers w = []"
      using t None by (cases "timers w") auto
    moreover have "dragBoundaryInterval w = dragBoundaryInterval_default
               \<lparr> dbi_xOffset := dbi_xOffset (dragBoundaryInterval w),
                 dbi_yOffset := dbi_yOffset (dragBoundaryInterval w) \<rparr>"
      using inv None by (simp add: scroll_inv_def dragBoundaryInterval_default_def)
    ultimately show ?thesis using b by simp
  next
    case (Some h)
    then have f: "fst (getBoundaryZonesXYAxes w x y) =
        (clearInterval (dbi_interval (dragBoundaryInterval w)) w)
                      \<lparr>dragBoundaryInterval := (dragBoundaryInterval w)
                         \<lparr>dbi_x := False, dbi_y := False, dbi_interval := None,
                          dbi_highlightedPort := None\<rparr>\<rparr>"
      using assms(2-5) by (simp add: getBoundaryZonesXYAxes_def Let_def)
    have "timers (fst (getBoundaryZonesXYAxes w x y)) = []"
      unfolding f using clearInterval_tracked [OF t] by simp
    moreover have "dragBoundaryInterval (fst (getBoundaryZonesXYAxes w x y))
           = dragBoundaryInterval_default
               \<lparr> dbi_xOffset := dbi_xOffset (dragBoundaryInterval w),
                 dbi_yOffset := dbi_yOffset (dragBoundaryInterval w) \<rparr>"
      unfolding f by (simp add: dragBoundaryInterval_default_def)
    ultimately show ?thesis using b by simp
  qed
qed

theorem getBoundaryZonesXYAxes_interior_witness:
  "timers example_scrolled \<noteq> [] \<and>
   snd (getBoundaryZonesXYAxes example_scrolled 500 400) = (0, 0) \<and>
   timers (fst (getBoundaryZonesXYAxes example_scrolled 500 400)) = [] \<and>
   dragBoundaryInterval (fst (getBoundaryZonesXYAxes example_scrolled 500 400))
     = dragBoundaryInterval_default\<lparr>dbi_xOffset := 15, dbi_yOffset := 0\<rparr>"
proof -
  have i: "\<not> isLeftBoundary example_scrolled 500" "\<not> isRightBoundary example_scrolled 500"
    "\<not> isTopBoundary example_scrolled 400" "\<not> isBottomBoundary example_scrolled 400"
    by (simp_all add: isLeftBoundary_def isRightBoundary_def isTopBoundary_def
        isBottomBoundary_def example_scrolled_def example_boundary_def example_started_def
        new_Workflow_def example_rect_def)
  have o: "dbi_xOffset (dragBoundaryInterval example_scrolled) = 15"
    "dbi_yOffset (dragBoundaryInterval example_scrolled) = 0"
    "timers example_scrolled \<noteq> []"
    by (simp_all add: example_scrolled_def example_boundary_def)
  show ?thesis
    using getBoundaryZonesXYAxes_interior [OF example_scrolled_reachable i] o by simp
qed


section \<open>The resizing of the boundary band\<close>

lemma resizeDragBoundary_result:
  assumes "resizeDragBoundary r b = Some b'"
  shows "r_left r + b' < r_right r - b' \<and> r_left r + b' * 4 < r_right r"
proof (rule resizeDragBoundary.raw_induct
    [where P = "\<lambda>r b b'. r_left r + b' < r_right r - b' \<and> r_left r + b' * 4 < r_right r",
     OF _ assms])
  fix f r b y
  assume IH: "\<And>r b y. f r b = Some y \<Longrightarrow>
                r_left r + y < r_right r - y \<and> r_left r + y * 4 < r_right r"
    and eq: "(if r_right r - b \<le> r_left r + b \<or> r_right r \<le> r_left r + b * 4
              then f r (b / 2) else Some b) = Some y"
  show "r_left r + y < r_right r - y \<and> r_left r + y * 4 < r_right r"
  proof (cases "r_right r - b \<le> r_left r + b \<or> r_right r \<le> r_left r + b * 4")
    case True
    with eq have "f r (b / 2) = Some y" by simp
    then show ?thesis by (rule IH)
  next
    case False
    with eq have "y = b" by simp
    with False show ?thesis by auto
  qed
qed

lemma resizeDragBoundary_halvings:
  assumes "r_left r < r_right r" "b < (r_right r - r_left r) / 4 * 2 ^ n"
  shows "\<exists>b'. resizeDragBoundary r b = Some b'"
  using assms(2)
proof (induction n arbitrary: b)
  case 0
  then have "\<not> (r_right r - b \<le> r_left r + b \<or> r_right r \<le> r_left r + (b * 4))"
    using assms(1) by auto
  then show ?case using resizeDragBoundary_stop by blast
next
  case (Suc n)
  show ?case
  proof (cases "r_right r - b \<le> r_left r + b \<or> r_right r \<le> r_left r + (b * 4)")
    case False
    then show ?thesis using resizeDragBoundary_stop by blast
  next
    case True
    have "b / 2 < (r_right r - r_left r) / 4 * 2 ^ n"
      using Suc.prems by simp
    then obtain b' where "resizeDragBoundary r (b / 2) = Some b'"
      using Suc.IH by blast
    with True show ?thesis
      by (subst resizeDragBoundary.simps) simp
  qed
qed

lemma resizeDragBoundary_terminates:
  assumes "r_left r < r_right r"
  shows "\<exists>b'. resizeDragBoundary r b = Some b'"
proof -
  have "0 < (r_right r - r_left r) / 4" using assms by simp
  then obtain n where "b / ((r_right r - r_left r) / 4) < 2 ^ n"
    using real_arch_pow [of 2 "b / ((r_right r - r_left r) / 4)"] by auto
  then have "b < (r_right r - r_left r) / 4 * 2 ^ n"
    using \<open>0 < (r_right r - r_left r) / 4\<close> by (simp add: pos_divide_less_eq mult.commute)
  then show ?thesis using resizeDragBoundary_halvings [OF assms] by blast
qed

lemma resizeDragBoundary_positive:
  assumes "resizeDragBoundary r b = Some b'" "0 < b"
  shows "0 < b'"
proof -
  have "0 < b \<longrightarrow> 0 < b'"
  proof (rule resizeDragBoundary.raw_induct
      [where P = "\<lambda>r b b'. 0 < b \<longrightarrow> 0 < b'", OF _ assms(1)])
    fix f r b y
    assume IH: "\<And>r b y. f r b = Some y \<Longrightarrow> 0 < b \<longrightarrow> 0 < y"
      and eq: "(if r_right r - b \<le> r_left r + b \<or> r_right r \<le> r_left r + b * 4
                then f r (b / 2) else Some b) = Some y"
    show "0 < b \<longrightarrow> 0 < y"
    proof (cases "r_right r - b \<le> r_left r + b \<or> r_right r \<le> r_left r + b * 4")
      case True
      with eq have "f r (b / 2) = Some y" by simp
      then have "0 < b / 2 \<longrightarrow> 0 < y" by (rule IH)
      then show ?thesis by simp
    next
      case False
      with eq show ?thesis by simp
    qed
  qed
  with assms(2) show ?thesis by simp
qed

lemma resizeDragBoundary_diverges:
  assumes "r_right r \<le> r_left r" "0 < b"
  shows "resizeDragBoundary r b = None"
proof (cases "resizeDragBoundary r b")
  case None
  then show ?thesis .
next
  case (Some b')
  then have "0 < b'" "r_left r + b' * 4 < r_right r"
    using resizeDragBoundary_positive [OF Some assms(2)] resizeDragBoundary_result [OF Some]
    by simp_all
  with assms(1) show ?thesis by simp
qed

text \<open>
  C6 at a canvas that is 1000 pixels wide and 60 pixels high. The loop tests the
  horizontal extent only, so it leaves the band width at 50; the top band then ends at
  \<open>y = 50\<close> and the bottom band starts at \<open>y = 10\<close>, and the pointer at \<open>y = 30\<close>
  is in both. (On the horizontal axis the bands are apart after the loop,
  \<open>resizeDragBoundary_result\<close>, and the loop ends for every canvas of positive width,
  \<open>resizeDragBoundary_terminates\<close>.)
\<close>

theorem dragBoundary_vertical_overlap:
  "resizeDragBoundary short_rect 50 = Some 50 \<and>
   map_option dragBoundary (setDragBoundaryIntervalIfNecessary example_short (0, -1) None) = Some 50 \<and>
   map_option workflowBoundingClientRect
     (setDragBoundaryIntervalIfNecessary example_short (0, -1) None) = Some short_rect \<and>
   r_bottom short_rect - 50 < r_top short_rect + 50 \<and>
   isTopBoundary (the (setDragBoundaryIntervalIfNecessary example_short (0, -1) None)) 30 \<and>
   isBottomBoundary (the (setDragBoundaryIntervalIfNecessary example_short (0, -1) None)) 30"
proof -
  have r: "resizeDragBoundary short_rect 50 = Some 50"
    by (rule resizeDragBoundary_stop) (simp add: short_rect_def)
  have w: "workflowBoundingClientRect example_short = short_rect" "dragBoundary example_short = 50"
    by (simp_all add: example_short_def nodeDragStart_def new_Workflow_def)
  show ?thesis
    by (simp add: r w setDragBoundaryIntervalIfNecessary_def Let_def)
       (simp add: startInterval_def Let_def setInterval_def clearInterval_def isTopBoundary_def
          isBottomBoundary_def example_short_def nodeDragStart_def new_Workflow_def
          short_rect_def dragBoundaryInterval_default_def)
qed

section \<open>Properties of the port connection resolver\<close>

lemma sort_key_hd_least:
  assumes "sort_key f xs = y # ys"
  shows "y \<in> set xs \<and> (\<forall>x \<in> set xs. f y \<le> f x)"
proof -
  have s: "sorted (map f (y # ys))"
    using sorted_sort_key [of f xs] assms by simp
  have e: "set (y # ys) = set xs"
    using set_sort [of f xs] assms by simp
  from e have "y \<in> set xs" by auto
  moreover have "\<forall>x \<in> set xs. f y \<le> f x"
  proof
    fix x assume "x \<in> set xs"
    with e have "x = y \<or> x \<in> set ys" by auto
    with s show "f y \<le> f x" by auto
  qed
  ultimately show ?thesis by simp
qed

lemma getSortedConnectionPorts_empty:
  "getSortedConnectionPorts ports coords = [] \<longleftrightarrow> ports = []"
proof -
  have "length (getSortedConnectionPorts ports coords) = length ports"
    by (simp add: getSortedConnectionPorts_def)
  then show ?thesis by (metis length_0_conv)
qed

lemma getSortedConnectionPorts_nearest:
  assumes "getSortedConnectionPorts ports coords = s0 # rest"
  shows "(\<exists>p \<in> set ports. s0 = setDistance coords p) \<and>
         p_distance s0 = portDistance coords s0 \<and>
         (\<forall>p \<in> set ports. portDistance coords s0 \<le> portDistance coords p)"
proof -
  from sort_key_hd_least [OF assms [unfolded getSortedConnectionPorts_def]]
  have m: "s0 \<in> set (map (setDistance coords) ports)"
    and l: "\<forall>x \<in> set (map (setDistance coords) ports). p_distance s0 \<le> p_distance x"
    by simp_all
  from m obtain p where p: "p \<in> set ports" "s0 = setDistance coords p" by auto
  have d: "p_distance (setDistance coords q) = portDistance coords q"
          "portDistance coords (setDistance coords q) = portDistance coords q" for q
    by (simp_all add: setDistance_def portDistance_def)
  show ?thesis
    using p l d by auto
qed

lemma highlightPortOrShowGhostNode_cases:
  "highlightPortOrShowGhostNode g sortedPorts n c =
     (if sortedPorts \<noteq> [] \<and> p_distance (hd sortedPorts) < 100
      then (Some (hd sortedPorts), g\<lparr>g_hidden := True, g_translate := c\<rparr>)
      else (None, g\<lparr>g_hidden := \<not> n > 120, g_translate := c\<rparr>))"
  by (cases sortedPorts) (simp_all add: highlightPortOrShowGhostNode_def Let_def)

lemma portDragMove_result:
  assumes "portDragMove w pd dx dy ev ctm = Some (w', pd')"
  shows "\<exists>coords newCoords.
           translateMouseCoords w (fst ev) (snd ev) = Some coords \<and>
           (pd_highlightedPort pd', pd_ghostIONode pd') =
             highlightPortOrShowGhostNode (pd_ghostIONode pd)
               (getSortedConnectionPorts (pd_allConnectionPorts pd) coords)
               (distance (fst (pd_originNodeCoords pd)) (snd (pd_originNodeCoords pd))
                         (fst coords) (snd coords))
               newCoords \<and>
           snd (pd_edge pd') = newCoords"
proof -
  from assms obtain coords where c: "translateMouseCoords w (fst ev) (snd ev) = Some coords"
    by (auto simp: portDragMove_def split: Option.bind_splits)
  from assms c obtain origin where o: "translateMouseCoords w (fst ctm) (snd ctm) = Some origin"
    by (auto simp: portDragMove_def split: Option.bind_splits)
  obtain w1 b where g: "getBoundaryZonesXYAxes w (fst ev) (snd ev) = (w1, b)"
    by (cases "getBoundaryZonesXYAxes w (fst ev) (snd ev)")
  from assms c o g obtain w2 sd where
    sd: "getScaledDeltaXYForDrag w2 b (fst origin) (snd origin) dx dy = Some sd"
    and r: "Some (w', pd') =
       (case highlightPortOrShowGhostNode (pd_ghostIONode pd)
               (getSortedConnectionPorts (pd_allConnectionPorts pd) coords)
               (distance (fst (pd_originNodeCoords pd)) (snd (pd_originNodeCoords pd))
                         (fst coords) (snd coords))
               (fst origin + fst sd, snd origin + snd sd) of
          (highlightedPort, gh) \<Rightarrow>
            Some (w2, pd\<lparr> pd_edge := (origin, (fst origin + fst sd, snd origin + snd sd)),
                      pd_allConnectionPorts := map (setDistance coords) (pd_allConnectionPorts pd),
                      pd_highlightedPort := highlightedPort,
                      pd_ghostIONode := gh \<rparr>))"
    unfolding portDragMove_def
    by (simp add: Let_def split: Option.bind_splits)
  show ?thesis
    using c r by (auto split: prod.splits)
qed

lemma distance_horizontal: "distance x1 y x2 y = \<bar>x2 - x1\<bar>"
  by (simp add: distance_def)


lemma example_portDragMove:
  assumes "w = example_started\<lparr>edges := es\<rparr>"
  shows "portDragMove w example_portDrag 840 0 (940, 500) (100, 500) = Some (w, example_snapped)"
proof -
  have t: "translateMouseCoords w x y = Some (x, y)" for x y
    using translateMouseCoords_identity [of w 0 x y]
    by (simp add: assms example_started_def new_Workflow_def identity_matrix_def)
  have g: "getBoundaryZonesXYAxes w 940 500 = (w, (0, 0))"
    by (simp add: getBoundaryZonesXYAxes_def Let_def isLeftBoundary_def isRightBoundary_def
        isTopBoundary_def isBottomBoundary_def assms example_started_def new_Workflow_def
        example_rect_def dragBoundaryInterval_default_def)
  have d: "getScaledDeltaXYForDrag w (0, 0) 100 500 840 0 = Some (840, 0)"
    by (simp add: getScaledDeltaXYForDrag_def Let_def adaptToScale_def assms
        example_started_def new_Workflow_def dragBoundaryInterval_default_def)
  have s: "setDistance (940, 500) example_target = example_target\<lparr>p_distance := 10\<rparr>"
    by (simp add: setDistance_def portDistance_def example_target_def distance_horizontal)
  have h: "highlightPortOrShowGhostNode example_ghost [example_target\<lparr>p_distance := 10\<rparr>]
             (distance 80 500 940 500) (940, 500)
           = (Some (example_target\<lparr>p_distance := 10\<rparr>), \<lparr> g_hidden = True, g_translate = (940, 500) \<rparr>)"
    by (simp add: highlightPortOrShowGhostNode_def Let_def example_ghost_def)
  show ?thesis
    by (simp add: portDragMove_def t g d Let_def)
       (simp add: example_portDrag_def example_snapped_def getSortedConnectionPorts_def s h)
qed

lemma snapConnection_result:
  "snapConnection w origin hp =
     (let ids = orderIDs (p_connection_id origin) (p_connection_id hp)
      in if findEdge w (fst ids) (snd ids) then w
         else w\<lparr> beforeChange := beforeChange w @ [''connect''],
                 edges := edges w @ [ids],
                 model_calls := model_calls w @ [Connect (fst ids) (snd ids)] \<rparr>)"
  by (simp add: snapConnection_def Let_def emitBeforeChange_def modelCall_def
      spawnBetweenConnectionIDs_def findEdge_def split: prod.splits)

lemma findEdge_reset [simp]:
  "findEdge (setDragBoundaryIntervalToDefault (w\<lparr>isDragging := False\<rparr>)) a b = findEdge w a b"
  by (simp add: findEdge_def)

lemma portDragEnd_snap:
  assumes "releaseTarget w pd = Some hp"
  shows "portDragEnd w pd origin ev newIO
           = Some (snapConnection (setDragBoundaryIntervalToDefault (w\<lparr>isDragging := False\<rparr>)) origin hp)"
  using assms by (simp add: portDragEnd_def Let_def)

text \<open>
  C8. When the port that the release reads as highlighted and the origin port, put in
  order so that an id starting with \<^verbatim>\<open>in\<close> is the destination, are joined by an edge
  already, the release succeeds and changes nothing of the graph: no
  \<^verbatim>\<open>beforeChange\<close> notification is emitted, no edge element is created, the data model
  is not called, and no node is created.
\<close>

theorem release_on_connected_pair:
  assumes "releaseTarget w pd = Some hp"
    and "findEdge w (fst (orderIDs (p_connection_id origin) (p_connection_id hp)))
                    (snd (orderIDs (p_connection_id origin) (p_connection_id hp)))"
  shows "\<exists>w'. portDragEnd w pd origin ev newIO = Some w' \<and>
              beforeChange w' = beforeChange w \<and> edges w' = edges w \<and>
              model_calls w' = model_calls w \<and> nodes w' = nodes w"
  using assms(2)
  by (simp add: portDragEnd_snap [OF assms(1)] snapConnection_result Let_def)

theorem release_on_connected_pair_witness:
  "releaseTarget example_joined example_snapped = Some (example_target\<lparr>p_distance := 10\<rparr>) \<and>
   orderIDs (p_connection_id example_origin) (p_connection_id (example_target\<lparr>p_distance := 10\<rparr>))
     = (''out/A/o'', ''in/B/i'') \<and>
   findEdge example_joined ''out/A/o'' ''in/B/i'' \<and>
   (\<exists>w'. portDragEnd example_joined example_snapped example_origin (940, 500) ''out/new'' = Some w' \<and>
         beforeChange w' = [] \<and> edges w' = [(''out/A/o'', ''in/B/i'')] \<and>
         model_calls w' = [] \<and> nodes w' = [])"
proof -
  have r: "releaseTarget example_joined example_snapped = Some (example_target\<lparr>p_distance := 10\<rparr>)"
    by (simp add: releaseTarget_def example_joined_def example_started_def new_Workflow_def
        dragBoundaryInterval_default_def example_snapped_def)
  have o: "orderIDs (p_connection_id example_origin)
             (p_connection_id (example_target\<lparr>p_distance := 10\<rparr>)) = (''out/A/o'', ''in/B/i'')"
    by (simp add: orderIDs_def startsWith_def example_origin_def example_target_def)
  have f: "findEdge example_joined ''out/A/o'' ''in/B/i''"
    by (simp add: findEdge_def example_joined_def)
  have s: "beforeChange example_joined = []" "edges example_joined = [(''out/A/o'', ''in/B/i'')]"
    "model_calls example_joined = []" "nodes example_joined = []"
    by (simp_all add: example_joined_def example_started_def new_Workflow_def)
  from release_on_connected_pair [OF r, of example_origin "(940, 500)" "''out/new''"] o f s
  show ?thesis using r by simp
qed

text \<open>
  C2, amended. On every port-drag move the distances are measured from the canvas
  position \<open>coords\<close> of the pointer: when some candidate is closer than 100 to it, a
  nearest candidate is the highlighted port and the ghost node is hidden; otherwise no
  port is highlighted and the ghost node is shown exactly when the pointer is farther
  than 120 from the origin node. On release, with the port that the release reads as
  highlighted (the one of the boundary timer, or else the one of the last move): no
  node is created, and one edge is created between the two ports unless an edge joins
  them already, in which case nothing changes; without such a port and with the ghost
  node shown, exactly one node and one edge from the origin port to it are created;
  without such a port and with the ghost node hidden, nothing of the graph changes.
\<close>

theorem port_drag_snap_or_ghost:
  "(portDragMove w pd dx dy ev ctm = Some (w', pd') \<longrightarrow>
      (\<exists>coords. translateMouseCoords w (fst ev) (snd ev) = Some coords \<and>
         (case pd_highlightedPort pd' of
            Some hp \<Rightarrow>
              (\<exists>p \<in> set (pd_allConnectionPorts pd). hp = setDistance coords p) \<and>
              portDistance coords hp < 100 \<and>
              (\<forall>p \<in> set (pd_allConnectionPorts pd). portDistance coords hp \<le> portDistance coords p) \<and>
              g_hidden (pd_ghostIONode pd')
          | None \<Rightarrow>
              (\<forall>p \<in> set (pd_allConnectionPorts pd). 100 \<le> portDistance coords p) \<and>
              (g_hidden (pd_ghostIONode pd') \<longleftrightarrow>
                 \<not> 120 < distance (fst (pd_originNodeCoords pd)) (snd (pd_originNodeCoords pd))
                                   (fst coords) (snd coords))))) \<and>
   (portDragEnd w pd origin ev newIO = Some w'' \<longrightarrow>
      (case releaseTarget w pd of
         Some hp \<Rightarrow>
           nodes w'' = nodes w \<and>
           (if findEdge w (fst (orderIDs (p_connection_id origin) (p_connection_id hp)))
                          (snd (orderIDs (p_connection_id origin) (p_connection_id hp)))
            then edges w'' = edges w \<and> model_calls w'' = model_calls w \<and>
                 beforeChange w'' = beforeChange w
            else edges w'' = edges w @ [orderIDs (p_connection_id origin) (p_connection_id hp)])
       | None \<Rightarrow>
           (if g_hidden (pd_ghostIONode pd)
            then edges w'' = edges w \<and> nodes w'' = nodes w \<and>
                 model_calls w'' = model_calls w \<and> beforeChange w'' = beforeChange w
            else (\<exists>x y. nodes w'' = nodes w @ [(newIO, x, y)]) \<and>
                 edges w'' = edges w @ [(p_connection_id origin, newIO)])))"
proof (intro conjI impI)
  assume m: "portDragMove w pd dx dy ev ctm = Some (w', pd')"
  from portDragMove_result [OF m] obtain coords newCoords where
    c: "translateMouseCoords w (fst ev) (snd ev) = Some coords"
    and h: "(pd_highlightedPort pd', pd_ghostIONode pd') =
             highlightPortOrShowGhostNode (pd_ghostIONode pd)
               (getSortedConnectionPorts (pd_allConnectionPorts pd) coords)
               (distance (fst (pd_originNodeCoords pd)) (snd (pd_originNodeCoords pd))
                         (fst coords) (snd coords))
               newCoords"
    by blast
  let ?ports = "pd_allConnectionPorts pd"
  let ?sorted = "getSortedConnectionPorts ?ports coords"
  let ?n = "distance (fst (pd_originNodeCoords pd)) (snd (pd_originNodeCoords pd))
                     (fst coords) (snd coords)"
  have "case pd_highlightedPort pd' of
            Some hp \<Rightarrow>
              (\<exists>p \<in> set ?ports. hp = setDistance coords p) \<and>
              portDistance coords hp < 100 \<and>
              (\<forall>p \<in> set ?ports. portDistance coords hp \<le> portDistance coords p) \<and>
              g_hidden (pd_ghostIONode pd')
          | None \<Rightarrow>
              (\<forall>p \<in> set ?ports. 100 \<le> portDistance coords p) \<and>
              (g_hidden (pd_ghostIONode pd') \<longleftrightarrow> \<not> 120 < ?n)"
  proof (cases ?sorted)
    case Nil
    then have "?ports = []" using getSortedConnectionPorts_empty by blast
    moreover from h Nil have "pd_highlightedPort pd' = None"
      "g_hidden (pd_ghostIONode pd') \<longleftrightarrow> \<not> 120 < ?n"
      by (simp_all add: highlightPortOrShowGhostNode_cases)
    ultimately show ?thesis by simp
  next
    case (Cons s0 rest)
    note n = getSortedConnectionPorts_nearest [OF Cons]
    show ?thesis
    proof (cases "p_distance s0 < 100")
      case True
      with h Cons have "pd_highlightedPort pd' = Some s0" "g_hidden (pd_ghostIONode pd')"
        by (simp_all add: highlightPortOrShowGhostNode_cases)
      with n True show ?thesis by simp
    next
      case False
      with h Cons have "pd_highlightedPort pd' = None"
        "g_hidden (pd_ghostIONode pd') \<longleftrightarrow> \<not> 120 < ?n"
        by (simp_all add: highlightPortOrShowGhostNode_cases)
      moreover have "\<forall>p \<in> set ?ports. 100 \<le> portDistance coords p"
        using n False by fastforce
      ultimately show ?thesis by simp
    qed
  qed
  with c show "\<exists>coords. translateMouseCoords w (fst ev) (snd ev) = Some coords \<and>
         (case pd_highlightedPort pd' of
            Some hp \<Rightarrow>
              (\<exists>p \<in> set (pd_allConnectionPorts pd). hp = setDistance coords p) \<and>
              portDistance coords hp < 100 \<and>
              (\<forall>p \<in> set (pd_allConnectionPorts pd). portDistance coords hp \<le> portDistance coords p) \<and>
              g_hidden (pd_ghostIONode pd')
          | None \<Rightarrow>
              (\<forall>p \<in> set (pd_allConnectionPorts pd). 100 \<le> portDistance coords p) \<and>
              (g_hidden (pd_ghostIONode pd') \<longleftrightarrow>
                 \<not> 120 < distance (fst (pd_originNodeCoords pd)) (snd (pd_originNodeCoords pd))
                                   (fst coords) (snd coords)))"
    by blast
next
  assume e: "portDragEnd w pd origin ev newIO = Some w''"
  let ?w1 = "setDragBoundaryIntervalToDefault (w\<lparr>isDragging := False\<rparr>)"
  show "case releaseTarget w pd of
         Some hp \<Rightarrow>
           nodes w'' = nodes w \<and>
           (if findEdge w (fst (orderIDs (p_connection_id origin) (p_connection_id hp)))
                          (snd (orderIDs (p_connection_id origin) (p_connection_id hp)))
            then edges w'' = edges w \<and> model_calls w'' = model_calls w \<and>
                 beforeChange w'' = beforeChange w
            else edges w'' = edges w @ [orderIDs (p_connection_id origin) (p_connection_id hp)])
       | None \<Rightarrow>
           (if g_hidden (pd_ghostIONode pd)
            then edges w'' = edges w \<and> nodes w'' = nodes w \<and>
                 model_calls w'' = model_calls w \<and> beforeChange w'' = beforeChange w
            else (\<exists>x y. nodes w'' = nodes w @ [(newIO, x, y)]) \<and>
                 edges w'' = edges w @ [(p_connection_id origin, newIO)])"
  proof (cases "releaseTarget w pd")
    case (Some hp)
    with e have "w'' = snapConnection ?w1 origin hp"
      by (simp add: portDragEnd_snap)
    then show ?thesis
      using Some by (simp add: snapConnection_result Let_def)
  next
    case None
    show ?thesis
    proof (cases "g_hidden (pd_ghostIONode pd)")
      case True
      with e None have "w'' = ?w1" by (simp add: portDragEnd_def Let_def)
      with None True show ?thesis by simp
    next
      case False
      with e None have c: "createIO ?w1 origin ev newIO = Some w''"
        by (simp add: portDragEnd_def Let_def)
      have n: "dbi_interval (dragBoundaryInterval ?w1) = None"
        by (simp add: setDragBoundaryIntervalToDefault_def Let_def)
      from createIO_result(3,4) [OF n c] None False show ?thesis by simp
    qed
  qed
qed

lemma example_started_fields:
  "wf_matrix (example_started\<lparr>edges := es\<rparr>) = identity_matrix"
  "root_ctm (example_started\<lparr>edges := es\<rparr>) = identity_matrix"
  "scale (example_started\<lparr>edges := es\<rparr>) = 1"
  "workflowBoundingClientRect (example_started\<lparr>edges := es\<rparr>) = example_rect"
  "dragBoundary (example_started\<lparr>edges := es\<rparr>) = 50"
  "dragBoundaryInterval (example_started\<lparr>edges := es\<rparr>) = dragBoundaryInterval_default"
  "timers (example_started\<lparr>edges := es\<rparr>) = []"
  "nodes (example_started\<lparr>edges := es\<rparr>) = []"
  "beforeChange (example_started\<lparr>edges := es\<rparr>) = []"
  "model_calls (example_started\<lparr>edges := es\<rparr>) = []"
  by (simp_all add: example_started_def new_Workflow_def)

lemma example_portDragMove_outside:
  assumes "w = example_started\<lparr>edges := es\<rparr>"
  shows "\<exists>w' pd'. portDragMove w example_portDrag 1100 0 (1200, 500) (100, 500) = Some (w', pd') \<and>
           pd_highlightedPort pd' = None \<and> \<not> g_hidden (pd_ghostIONode pd') \<and>
           snd (pd_edge pd') = (950, 500) \<and> timers w' \<noteq> []"
proof -
  note f = example_started_fields [of es, folded assms]
  have t: "translateMouseCoords v x y = Some (x, y)"
    if "wf_matrix v = identity_matrix" "root_ctm v = identity_matrix" for v x y
    using translateMouseCoords_identity [of v 0 x y] that by (simp add: identity_matrix_def)
  have g: "getBoundaryZonesXYAxes w 1200 500 = (w, (1, 0))"
    by (simp add: getBoundaryZonesXYAxes_def Let_def isLeftBoundary_def isRightBoundary_def
        isTopBoundary_def isBottomBoundary_def f example_rect_def)
  have r: "resizeDragBoundary (workflowBoundingClientRect w) (dragBoundary w) = Some 50"
    using example_rect_resize by (simp add: f)
  define gio where "gio = \<lparr> gio_nodeToMouseDistance = distance 80 500 1200 500,
       gio_allConnectionPorts = [example_target], gio_highlightedPort = None,
       gio_origin = (100, 500) \<rparr>"
  define w2 where "w2 = startInterval (w\<lparr>dragBoundary := 50\<rparr>) (1, 0) (Some gio)"
  have i: "setDragBoundaryIntervalIfNecessary w (1, 0) (Some gio) = Some w2"
    by (simp add: setDragBoundaryIntervalIfNecessary_def r Let_def)
       (simp add: f w2_def dragBoundaryInterval_default_def)
  have w2t: "timers w2 \<noteq> []"
    by (simp add: w2_def startInterval_def Let_def setInterval_def split: prod.splits)
  have w2f: "wf_matrix w2 = identity_matrix" "root_ctm w2 = identity_matrix" "scale w2 = 1"
    "workflowBoundingClientRect w2 = example_rect" "dragBoundary w2 = 50"
    "dbi_xOffset (dragBoundaryInterval w2) = 0" "dbi_yOffset (dragBoundaryInterval w2) = 0"
    by (simp_all add: w2_def startInterval_def Let_def setInterval_def clearInterval_def f
        gio_def dragBoundaryInterval_default_def split: option.splits)
  have d: "getScaledDeltaXYForDrag w2 (1, 0) 100 500 1100 0 = Some (850, 0)"
    by (simp add: getScaledDeltaXYForDrag_def Let_def t [OF w2f(1,2)] adaptToScale_def w2f
        example_rect_def)
  have s: "setDistance (1200, 500) example_target = example_target\<lparr>p_distance := 250\<rparr>"
    by (simp add: setDistance_def portDistance_def example_target_def distance_horizontal)
  have h: "highlightPortOrShowGhostNode example_ghost [example_target\<lparr>p_distance := 250\<rparr>]
             (distance 80 500 1200 500) (950, 500)
           = (None, \<lparr> g_hidden = False, g_translate = (950, 500) \<rparr>)"
    by (simp add: highlightPortOrShowGhostNode_def Let_def example_ghost_def distance_horizontal)
  have "portDragMove w example_portDrag 1100 0 (1200, 500) (100, 500)
          = Some (w2, example_portDrag
                \<lparr> pd_edge := ((100, 500), (950, 500)),
                  pd_allConnectionPorts := [example_target\<lparr>p_distance := 250\<rparr>],
                  pd_highlightedPort := None,
                  pd_ghostIONode := \<lparr> g_hidden = False, g_translate = (950, 500) \<rparr> \<rparr>)"
    by (simp add: portDragMove_def t [OF f(1,2)] g Let_def)
       (simp add: example_portDrag_def getSortedConnectionPorts_def s h i [unfolded gio_def] d)
  then show ?thesis using w2t by simp
qed

lemma getBoundaryZonesXYAxes_frame [simp]:
  "wf_matrix (fst (getBoundaryZonesXYAxes w x y)) = wf_matrix w"
  "root_ctm (fst (getBoundaryZonesXYAxes w x y)) = root_ctm w"
  by (simp_all add: getBoundaryZonesXYAxes_def Let_def)

lemma scaleWorkflow_Some:
  assumes "det (root_ctm w) \<noteq> 0" "det (wf_matrix w) \<noteq> 0"
  shows "\<exists>w'. scaleWorkflow w s a = Some w'"
proof -
  have "det (root_ctm (w\<lparr>scale := s\<rparr>)) \<noteq> 0" "det (wf_matrix (w\<lparr>scale := s\<rparr>)) \<noteq> 0"
    using assms by simp_all
  from translateMouseCoords_Some [OF this]
  obtain c where "translateMouseCoords (w\<lparr>scale := s\<rparr>)
      (case a of Some p \<Rightarrow> fst p | None \<Rightarrow> 0) (case a of Some p \<Rightarrow> snd p | None \<Rightarrow> 0) = Some c"
    by blast
  then show ?thesis by (simp add: scaleWorkflow_def Let_def)
qed

lemma createIO_Some:
  assumes "det (root_ctm w) \<noteq> 0" "det (wf_matrix w) \<noteq> 0"
  shows "\<exists>w'. createIO w origin ev newIO = Some w'"
proof -
  let ?w3 = "modelCall (if startsWith (p_connection_id origin) ''in''
                          then CreateInputFromPort (p_connection_id origin)
                          else CreateOutputFromPort (p_connection_id origin))
               (emitBeforeChange (if startsWith (p_connection_id origin) ''in''
                                  then ''input.create'' else ''output.create'') w)"
  obtain w4 b where g: "getBoundaryZonesXYAxes ?w3 (fst ev) (snd ev) = (w4, b)"
    by (cases "getBoundaryZonesXYAxes ?w3 (fst ev) (snd ev)")
  have "wf_matrix w4 = wf_matrix ?w3" "root_ctm w4 = root_ctm ?w3"
    using getBoundaryZonesXYAxes_frame [of ?w3 "fst ev" "snd ev"] g by simp_all
  then have m: "wf_matrix w4 = wf_matrix w" "root_ctm w4 = root_ctm w"
    by (simp_all add: modelCall_def emitBeforeChange_def)
  have "det (root_ctm w4) \<noteq> 0" "det (wf_matrix w4) \<noteq> 0"
    using assms m by simp_all
  from translateMouseCoords_Some [OF this]
  have T: "\<exists>c. translateMouseCoords w4 x y = Some c" for x y
    by blast
  obtain mc where mc: "translateMouseCoords w4 (fst ev) (snd ev) = Some mc"
    using T by blast
  obtain newX where nx: "(if fst b \<noteq> 0
                 then map_option fst (translateMouseCoords w4
                        (if fst b = -1 then r_left (workflowBoundingClientRect w4) + dragBoundary w4
                         else r_right (workflowBoundingClientRect w4) - dragBoundary w4) 0)
                 else Some (fst mc)) = Some newX"
    using T [of "if fst b = -1 then r_left (workflowBoundingClientRect w4) + dragBoundary w4
                 else r_right (workflowBoundingClientRect w4) - dragBoundary w4" 0]
    by (cases "fst b \<noteq> 0") auto
  obtain newY where ny: "(if snd b \<noteq> 0
                 then map_option snd (translateMouseCoords w4 0
                        (if snd b = -1 then r_top (workflowBoundingClientRect w4) + dragBoundary w4
                         else r_bottom (workflowBoundingClientRect w4) - dragBoundary w4))
                 else Some (snd mc)) = Some newY"
    using T [of 0 "if snd b = -1 then r_top (workflowBoundingClientRect w4) + dragBoundary w4
                   else r_bottom (workflowBoundingClientRect w4) - dragBoundary w4"]
    by (cases "snd b \<noteq> 0") auto
  let ?w7 = "spawnBetweenConnectionIDs
               (setModelPosition (w4\<lparr>nodes := nodes w4 @ [(newIO, newX, newY)]\<rparr>) newIO
                  (Some (fst mc)) (Some (snd mc)))
               (p_connection_id origin) newIO"
  have "wf_matrix ?w7 = wf_matrix w" "root_ctm ?w7 = root_ctm w"
    by (simp_all add: spawnBetweenConnectionIDs_def setModelPosition_def modelCall_def
        emitBeforeChange_def m)
  then obtain w' where "scaleWorkflow ?w7 (scale ?w7) None = Some w'"
    using scaleWorkflow_Some [of ?w7] assms by auto
  then have "createIO w origin ev newIO = Some w'"
    unfolding createIO_def Let_def g split_conv
    by (simp add: mc nx ny)
  then show ?thesis by blast
qed

lemma example_createIO:
  assumes "w = example_started\<lparr>edges := es\<rparr>"
  shows "\<exists>w''. portDragEnd w example_portDrag example_origin (400, 300) ''out/new'' = Some w''"
proof -
  note f = example_started_fields [of es, folded assms]
  let ?w1 = "setDragBoundaryIntervalToDefault (w\<lparr>isDragging := False\<rparr>)"
  have r: "releaseTarget w example_portDrag = None"
    by (simp add: releaseTarget_def f dragBoundaryInterval_default_def example_portDrag_def)
  have "det (root_ctm ?w1) \<noteq> 0" "det (wf_matrix ?w1) \<noteq> 0"
    by (simp_all add: f det_def identity_matrix_def)
  then obtain w'' where "createIO ?w1 example_origin (400, 300) ''out/new'' = Some w''"
    using createIO_Some by blast
  then show ?thesis
    using r by (simp add: portDragEnd_def Let_def example_portDrag_def example_ghost_def)
qed

text \<open>
  C2, as stated, fails in two places. A release on the highlighted port of a pair that
  an edge joins already creates no connection (and no node): the edges and nodes of the
  canvas are those before the release. And a move measures from the pointer, not from
  the free end of the dragged edge: with the pointer at \<open>(1200, 500)\<close>, beyond the
  right edge of the canvas, the free end is held at \<open>(950, 500)\<close>, on the only
  candidate port, yet no port is highlighted and the ghost node is shown.
\<close>

theorem port_drag_release_counterexample:
  "releaseTarget example_joined example_snapped = Some (example_target\<lparr>p_distance := 10\<rparr>) \<and>
   map_option edges (portDragEnd example_joined example_snapped example_origin (940, 500) ''out/new'')
     = Some (edges example_joined) \<and>
   map_option nodes (portDragEnd example_joined example_snapped example_origin (940, 500) ''out/new'')
     = Some (nodes example_joined) \<and>
   map_option (pd_highlightedPort \<circ> snd)
      (portDragMove example_started example_portDrag 1100 0 (1200, 500) (100, 500)) = Some None \<and>
   map_option (g_hidden \<circ> pd_ghostIONode \<circ> snd)
      (portDragMove example_started example_portDrag 1100 0 (1200, 500) (100, 500)) = Some False \<and>
   map_option (snd \<circ> pd_edge \<circ> snd)
      (portDragMove example_started example_portDrag 1100 0 (1200, 500) (100, 500))
     = Some (950, 500) \<and>
   pd_allConnectionPorts example_portDrag = [example_target] \<and>
   portDistance (950, 500) example_target < 100"
proof -
  have r: "releaseTarget example_joined example_snapped = Some (example_target\<lparr>p_distance := 10\<rparr>)"
    by (simp add: releaseTarget_def example_joined_def example_started_def new_Workflow_def
        dragBoundaryInterval_default_def example_snapped_def)
  have o: "orderIDs (p_connection_id example_origin) (p_connection_id example_target)
             = (''out/A/o'', ''in/B/i'')"
    by (simp add: orderIDs_def startsWith_def example_origin_def example_target_def)
  have f: "findEdge example_joined ''out/A/o'' ''in/B/i''"
    by (simp add: findEdge_def example_joined_def)
  have e: "portDragEnd example_joined example_snapped example_origin (940, 500) ''out/new''
            = Some (setDragBoundaryIntervalToDefault (example_joined\<lparr>isDragging := False\<rparr>))"
    using f by (simp add: portDragEnd_snap [OF r] snapConnection_result Let_def o)
  have "example_started = example_started\<lparr>edges := []\<rparr>"
    by (simp add: example_started_def new_Workflow_def)
  from example_portDragMove_outside [OF this]
  obtain w' pd' where m: "portDragMove example_started example_portDrag 1100 0 (1200, 500) (100, 500)
        = Some (w', pd')"
    and p: "pd_highlightedPort pd' = None" "\<not> g_hidden (pd_ghostIONode pd')"
       "snd (pd_edge pd') = (950, 500)"
    by blast
  have d: "portDistance (950, 500) example_target < 100"
    by (simp add: portDistance_def example_target_def distance_horizontal)
  have l: "pd_allConnectionPorts example_portDrag = [example_target]"
    by (simp add: example_portDrag_def)
  show ?thesis
    using r d l by (simp add: e m p)
qed

theorem port_drag_snap_or_ghost_witness:
  "portDragMove example_started example_portDrag 840 0 (940, 500) (100, 500)
     = Some (example_started, example_snapped) \<and>
   translateMouseCoords example_started 940 500 = Some (940, 500) \<and>
   pd_highlightedPort example_snapped = Some (setDistance (940, 500) example_target) \<and>
   portDistance (940, 500) (setDistance (940, 500) example_target) < 100 \<and>
   g_hidden (pd_ghostIONode example_snapped) \<and>
   (\<exists>w''. portDragEnd example_started example_snapped example_origin (940, 500) ''out/new'' = Some w'' \<and>
          nodes w'' = [] \<and> edges w'' = [(''out/A/o'', ''in/B/i'')]) \<and>
   (\<exists>w''. portDragEnd example_started example_portDrag example_origin (400, 300) ''out/new'' = Some w'' \<and>
          (\<exists>x y. nodes w'' = [(''out/new'', x, y)]) \<and> edges w'' = [(''out/A/o'', ''out/new'')])"
proof -
  have s: "example_started = example_started\<lparr>edges := []\<rparr>"
    by (simp add: example_started_def new_Workflow_def)
  have m: "portDragMove example_started example_portDrag 840 0 (940, 500) (100, 500)
             = Some (example_started, example_snapped)"
    using example_portDragMove [OF s] .
  have t: "translateMouseCoords example_started 940 500 = Some (940, 500)"
    using translateMouseCoords_identity [of example_started 0 940 500]
    by (simp add: example_started_def new_Workflow_def identity_matrix_def)
  have hp: "pd_highlightedPort example_snapped = Some (setDistance (940, 500) example_target)"
    by (simp add: example_snapped_def setDistance_def portDistance_def example_target_def
        distance_horizontal)
  have r: "releaseTarget example_started example_snapped = Some (setDistance (940, 500) example_target)"
    using hp by (simp add: releaseTarget_def example_started_def new_Workflow_def
        dragBoundaryInterval_default_def)
  have o: "orderIDs (p_connection_id example_origin)
             (p_connection_id (setDistance (940, 500) example_target)) = (''out/A/o'', ''in/B/i'')"
    by (simp add: orderIDs_def startsWith_def example_origin_def example_target_def setDistance_def)
  have f: "\<not> findEdge example_started ''out/A/o'' ''in/B/i''"
    "edges example_started = []" "nodes example_started = []"
    by (simp_all add: findEdge_def example_started_def new_Workflow_def)
  obtain w1 where e1: "portDragEnd example_started example_snapped example_origin (940, 500) ''out/new''
      = Some w1"
    by (simp add: portDragEnd_snap [OF r])
  obtain w2 where e2: "portDragEnd example_started example_portDrag example_origin (400, 300) ''out/new''
      = Some w2"
    using example_createIO [OF s] by blast
  have r2: "releaseTarget example_started example_portDrag = None"
    "\<not> g_hidden (pd_ghostIONode example_portDrag)"
    "p_connection_id example_origin = ''out/A/o''"
    by (simp_all add: releaseTarget_def example_started_def new_Workflow_def
        dragBoundaryInterval_default_def example_portDrag_def example_ghost_def example_origin_def)
  from port_drag_snap_or_ghost [of example_started example_portDrag 840 0 "(940, 500)" "(100, 500)"
      example_started example_snapped example_origin "''out/new''" w2] m t hp
  have a: "portDistance (940, 500) (setDistance (940, 500) example_target) < 100"
    "g_hidden (pd_ghostIONode example_snapped)"
    by simp_all
  from port_drag_snap_or_ghost [of example_started example_portDrag 0 0 "(400, 300)" "(100, 500)"
      example_started example_snapped example_origin "''out/new''" w2] e2 r2 f
  have c: "(\<exists>x y. nodes w2 = [(''out/new'', x, y)]) \<and> edges w2 = [(''out/A/o'', ''out/new'')]"
    by simp
  from port_drag_snap_or_ghost [of example_started example_snapped 840 0 "(940, 500)" "(100, 500)"
      example_started example_snapped example_origin "''out/new''" w1] e1 r o f
  have b: "nodes w1 = [] \<and> edges w1 = [(''out/A/o'', ''in/B/i'')]"
    by simp
  show ?thesis
    using m t hp a b c e1 e2 by simp
qed


section \<open>Properties of the auto-arrange layout\<close>

























































end
